theory Spec2Isabelle
  imports Complex_Main "HOL-Library.Log_Nat" "HOL-Library.AList" "HOL-Library.Multiset"
begin

section \<open>DoodleDash backend: rooms, rounds, guesses and scoring\<close>

text \<open>
  A shallow embedding of the game core of the DoodleDash backend: the user and room
  models (\<^verbatim>\<open>internal/models\<close>), the game engine and word bank
  (\<^verbatim>\<open>internal/services\<close>), the room registry, and the round-lifecycle and
  message handlers (\<^verbatim>\<open>internal/handlers\<close>).

  Conventions of the model.
  \<^item> Go's \<^verbatim>\<open>int\<close> is \<open>int\<close>; all counters and scores are assumed to stay
    inside the 64-bit range, so no wrap-around is written out.
  \<^item> A \<^verbatim>\<open>time.Time\<close> is a number of nanoseconds; the zero time is \<open>0\<close>. Every
    operation takes the clock reading \<open>now\<close> as an argument, and all clock reads inside
    one handler call return that same instant.
  \<^item> A Go map is an association list with distinct keys (\<^verbatim>\<open>len\<close> is its length).
    The order of the list stands for the order in which \<^verbatim>\<open>range\<close> happens to visit
    the map; Go leaves that order unspecified, so the functions whose result depends on
    it are also stated for an arbitrary visiting order.
  \<^item> User objects are held by pointer in the source; the model keeps each user inside
    the one room it plays in, so it covers a user that is a member of a single room.
  \<^item> Strings are byte strings restricted to ASCII.
  \<^item> A panic and a conversion whose result Go leaves implementation-defined are values
    of type \<open>error\<close>.
\<close>

datatype error = NilDereference | IndexOutOfRange | ImplementationDefined

subsection \<open>Time\<close>

type_synonym time = int

definition second :: int where
  "second = 1000000000"

text \<open>\<^verbatim>\<open>int(d.Seconds())\<close>: whole seconds of a duration, truncated toward zero.\<close>

definition seconds_of :: "int \<Rightarrow> int" where
  "seconds_of d = (if 0 \<le> d then d div second else - ((- d) div second))"

subsection \<open>Strings\<close>

definition isSpace :: "char \<Rightarrow> bool" where
  "isSpace c = ((of_char c :: nat) \<in> {9, 10, 11, 12, 13, 32})"

definition TrimSpace :: "string \<Rightarrow> string" where
  "TrimSpace s = rev (dropWhile isSpace (rev (dropWhile isSpace s)))"

definition toLower_char :: "char \<Rightarrow> char" where
  "toLower_char c =
     (if 65 \<le> (of_char c :: nat) \<and> (of_char c :: nat) \<le> 90 then char_of (of_char c + 32 :: nat) else c)"

definition toUpper_char :: "char \<Rightarrow> char" where
  "toUpper_char c =
     (if 97 \<le> (of_char c :: nat) \<and> (of_char c :: nat) \<le> 122 then char_of (of_char c - 32 :: nat) else c)"

definition ToLower :: "string \<Rightarrow> string" where
  "ToLower s = map toLower_char s"

definition ToUpper :: "string \<Rightarrow> string" where
  "ToUpper s = map toUpper_char s"

text \<open>\<^verbatim>\<open>utils.SanitizeInput\<close>: drops the five characters and trims.\<close>

definition SanitizeInput :: "string \<Rightarrow> string" where
  "SanitizeInput input =
     TrimSpace (filter (\<lambda>c. c \<notin> {CHR ''<'', CHR ''>'', CHR ''&'', CHR 0x22, CHR 0x27}) input)"

subsection \<open>Double-precision arithmetic\<close>

text \<open>
  A finite \<^verbatim>\<open>float64\<close> is the rational number it denotes. Each IEEE-754 operation
  returns the exact result rounded to the nearest number with a 53-bit significand,
  ties to even (\<open>round64\<close>). The exponent range is not modelled: the operands below
  come from 64-bit integers, which keeps every intermediate result in the normal range.
  A division by zero gives an infinity or a NaN; those are \<open>None\<close>.
\<close>

type_synonym float64 = rat

definition ilog2 :: "rat \<Rightarrow> int" where
  "ilog2 x = (if 1 \<le> x then bitlen \<lfloor>x\<rfloor> - 1 else - bitlen (\<lceil>1 / x\<rceil> - 1))"

definition round_half_even :: "rat \<Rightarrow> int" where
  "round_half_even y =
     (let f = \<lfloor>y\<rfloor>; r = y - of_int f
      in if r < 1 / 2 then f else if 1 / 2 < r then f + 1 else if even f then f else f + 1)"

definition pow2 :: "int \<Rightarrow> rat" where
  "pow2 k = (if 0 \<le> k then 2 ^ nat k else 1 / 2 ^ nat (- k))"

definition round64 :: "rat \<Rightarrow> float64" where
  "round64 x =
     (if x = 0 then 0
      else let u = pow2 (ilog2 \<bar>x\<bar> - 52) in of_int (round_half_even (x / u)) * u)"

definition float64_of_int :: "int \<Rightarrow> float64" where
  "float64_of_int i = round64 (of_int i)"

definition fdiv :: "float64 \<Rightarrow> float64 \<Rightarrow> float64 option" where
  "fdiv x y = (if y = 0 then None else Some (round64 (x / y)))"

definition fsub :: "float64 \<Rightarrow> float64 \<Rightarrow> float64" where
  "fsub x y = round64 (x - y)"

definition fmul :: "float64 \<Rightarrow> float64 \<Rightarrow> float64" where
  "fmul x y = round64 (x * y)"

definition trunc :: "rat \<Rightarrow> int" where
  "trunc v = (if 0 \<le> v then \<lfloor>v\<rfloor> else \<lceil>v\<rceil>)"

text \<open>
  \<^verbatim>\<open>int(f)\<close> for a \<^verbatim>\<open>float64\<close>: the fraction is discarded; when the value is
  not finite or does not fit the result is implementation-defined.
\<close>

definition int_of_float64 :: "float64 option \<Rightarrow> error + int" where
  "int_of_float64 f =
     (case f of
        None \<Rightarrow> Inl ImplementationDefined
      | Some v \<Rightarrow>
          if - (2 ^ 63) \<le> trunc v \<and> trunc v < 2 ^ 63 then Inr (trunc v)
          else Inl ImplementationDefined)"

text \<open>
  The expression \<^verbatim>\<open>float64(B) * (1.0 - float64(x)/float64(y))\<close>, which the scoring
  code evaluates for each of its three bonuses.
\<close>

definition bonus_f64 :: "int \<Rightarrow> int \<Rightarrow> int \<Rightarrow> float64 option" where
  "bonus_f64 B x y =
     (case fdiv (float64_of_int x) (float64_of_int y) of
        None \<Rightarrow> None
      | Some q \<Rightarrow> Some (fmul (float64_of_int B) (fsub 1 q)))"

subsection \<open>Users (\<^verbatim>\<open>models/user.go\<close>)\<close>

record User =
  u_ID :: string
  u_Username :: string
  u_Avatar :: string
  u_Score :: int
  u_IsReady :: bool
  u_IsConnected :: bool
  u_LastActivity :: time
  u_JoinedAt :: time
  u_GuestUser :: bool
  u_HasGuessedThisRound :: bool
  u_GuessTime :: time
  u_GuessOrder :: int
  u_RoundsWon :: int
  u_TotalGuesses :: int
  u_CorrectGuesses :: int
  u_TimesDrawer :: int

record PublicUser =
  pu_ID :: string
  pu_Username :: string
  pu_Avatar :: string
  pu_Score :: int
  pu_IsReady :: bool
  pu_IsConnected :: bool
  pu_HasGuessedThisRound :: bool
  pu_RoundsWon :: int
  pu_Accuracy :: "float64 option"

text \<open>
  \<^verbatim>\<open>NewUser\<close>. The identifier comes from \<^verbatim>\<open>generateUserID\<close>, whose random part
  is a placeholder in the source; it is an argument here.
\<close>

definition NewUser :: "string \<Rightarrow> string \<Rightarrow> string \<Rightarrow> time \<Rightarrow> User" where
  "NewUser uid username avatar now =
     \<lparr>u_ID = uid, u_Username = username, u_Avatar = avatar, u_Score = 0,
      u_IsReady = False, u_IsConnected = True, u_LastActivity = now, u_JoinedAt = now,
      u_GuestUser = True, u_HasGuessedThisRound = False, u_GuessTime = 0, u_GuessOrder = 0,
      u_RoundsWon = 0, u_TotalGuesses = 0, u_CorrectGuesses = 0, u_TimesDrawer = 0\<rparr>"

definition AddScore :: "int \<Rightarrow> User \<Rightarrow> User" where
  "AddScore points u = u\<lparr>u_Score := u_Score u + points\<rparr>"

definition SetReady :: "bool \<Rightarrow> User \<Rightarrow> User" where
  "SetReady ready u = u\<lparr>u_IsReady := ready\<rparr>"

definition RecordGuess :: "bool \<Rightarrow> int \<Rightarrow> time \<Rightarrow> User \<Rightarrow> User" where
  "RecordGuess correct guessOrder now u =
     (let u1 = u\<lparr>u_HasGuessedThisRound := True, u_GuessTime := now,
                  u_TotalGuesses := u_TotalGuesses u + 1\<rparr>
      in if correct
         then u1\<lparr>u_CorrectGuesses := u_CorrectGuesses u1 + 1, u_GuessOrder := guessOrder\<rparr>
         else u1)"

definition RecordDrawerTurn :: "User \<Rightarrow> User" where
  "RecordDrawerTurn u = u\<lparr>u_TimesDrawer := u_TimesDrawer u + 1\<rparr>"

definition ResetRoundData :: "User \<Rightarrow> User" where
  "ResetRoundData u =
     u\<lparr>u_HasGuessedThisRound := False, u_GuessTime := 0, u_GuessOrder := 0, u_IsReady := False\<rparr>"

definition GetAccuracy :: "User \<Rightarrow> float64 option" where
  "GetAccuracy u =
     (if u_TotalGuesses u = 0 then Some 0
      else case fdiv (float64_of_int (u_CorrectGuesses u)) (float64_of_int (u_TotalGuesses u)) of
             None \<Rightarrow> None
           | Some q \<Rightarrow> Some (fmul q 100))"

definition ToPublicUser :: "User \<Rightarrow> PublicUser" where
  "ToPublicUser u =
     \<lparr>pu_ID = u_ID u, pu_Username = u_Username u, pu_Avatar = u_Avatar u, pu_Score = u_Score u,
      pu_IsReady = u_IsReady u, pu_IsConnected = u_IsConnected u,
      pu_HasGuessedThisRound = u_HasGuessedThisRound u, pu_RoundsWon = u_RoundsWon u,
      pu_Accuracy = GetAccuracy u\<rparr>"

subsection \<open>Rooms (\<^verbatim>\<open>models/room.go\<close>)\<close>

datatype RoomType = RoomTypePublic | RoomTypePrivate

datatype GameState = GameStateLobby | GameStateStarting | GameStatePlaying | GameStateEnded

datatype GamePhase = GamePhaseWaiting | GamePhaseDrawing | GamePhaseGuessing | GamePhaseResults

record DrawCommand =
  dc_Type :: string
  dc_X :: rat
  dc_Y :: rat
  dc_Color :: string
  dc_Size :: rat
  dc_Timestamp :: time

record CreateRoomData =
  crd_RoomName :: string
  crd_RoomType :: string
  crd_MaxPlayers :: int
  crd_RoundTime :: int
  crd_MaxRounds :: int
  crd_Difficulty :: string
  crd_CustomWords :: "string list"

record Room =
  r_ID :: string
  r_Code :: string
  r_Name :: string
  r_Type :: RoomType
  r_HostID :: string
  r_CreatedAt :: time
  r_LastActivity :: time
  r_MaxPlayers :: int
  r_RoundTime :: int
  r_MaxRounds :: int
  r_Difficulty :: string
  r_CustomWords :: "string list"
  r_State :: GameState
  r_Phase :: GamePhase
  r_CurrentRound :: int
  r_RoundStartTime :: time
  r_Players :: "(string \<times> User) list"
  r_PlayerOrder :: "string list"
  r_CurrentDrawer :: string
  r_CurrentWord :: string
  r_WordHint :: string
  r_GuessedPlayers :: "string list"
  r_RoundEndTime :: time
  r_DrawingData :: "DrawCommand list"

text \<open>
  \<^verbatim>\<open>generateRoomCode\<close> of \<^verbatim>\<open>models/room.go\<close>, the one \<^verbatim>\<open>NewRoom\<close> calls. It
  indexes its own 36-character set. \<^verbatim>\<open>generateRandomInt\<close> is a placeholder in the
  source and returns 0; the loop is written over an arbitrary random source \<open>rnd\<close>
  (\<open>rnd i max\<close> is the result of the \<open>i\<close>-th call), and \<open>generateRoomCode\<close> is the
  loop over the source's placeholder.
\<close>

definition charset :: string where
  "charset = ''ABCDEFGHIJKLMNOPQRSTUVWXYZ0123456789''"

definition generateRandomInt :: "int \<Rightarrow> int" where
  "generateRandomInt bound = 0"

fun generateRoomCode_loop :: "(nat \<Rightarrow> int \<Rightarrow> int) \<Rightarrow> nat \<Rightarrow> nat \<Rightarrow> string \<Rightarrow> error + string" where
  "generateRoomCode_loop rnd i 0 code = Inr code"
| "generateRoomCode_loop rnd i (Suc n) code =
     (let j = rnd i (int (length charset))
      in if 0 \<le> j \<and> j < int (length charset)
         then generateRoomCode_loop rnd (Suc i) n (code @ [charset ! nat j])
         else Inl IndexOutOfRange)"

definition generateRoomCode_from :: "(nat \<Rightarrow> int \<Rightarrow> int) \<Rightarrow> error + string" where
  "generateRoomCode_from rnd = generateRoomCode_loop rnd 0 6 []"


text \<open>
  The alphabet of \<^verbatim>\<open>pkg/utils/room_code.go\<close> (\<^verbatim>\<open>roomCodeChars\<close>, "avoiding confusing
  characters like 0, O, I, 1"), which \<^verbatim>\<open>ValidateRoomCode\<close> checks against.
\<close>

definition roomCodeChars :: string where
  "roomCodeChars = ''ABCDEFGHIJKLMNPQRSTUVWXYZ23456789''"

definition roomCodeLength :: nat where
  "roomCodeLength = 6"

definition ValidateRoomCode :: "string \<Rightarrow> bool" where
  "ValidateRoomCode code =
     (if length code \<noteq> roomCodeLength then False
      else list_all (\<lambda>c. c \<in> set roomCodeChars) (ToUpper code))"

definition NormalizeRoomCode :: "string \<Rightarrow> string" where
  "NormalizeRoomCode code = ToUpper (TrimSpace code)"

text \<open>
  \<^verbatim>\<open>NewRoom\<close>. The room identifier (\<^verbatim>\<open>generateRoomID\<close>, a placeholder in the source)
  is the argument \<open>rid\<close>.
\<close>

definition NewRoom ::
  "(nat \<Rightarrow> int \<Rightarrow> int) \<Rightarrow> string \<Rightarrow> string \<Rightarrow> RoomType \<Rightarrow> string \<Rightarrow> CreateRoomData \<Rightarrow> time \<Rightarrow> error + Room" where
  "NewRoom rnd rid hostID roomType roomName settings now =
     (case generateRoomCode_from rnd of
        Inl e \<Rightarrow> Inl e
      | Inr code \<Rightarrow>
          Inr \<lparr>r_ID = rid, r_Code = code, r_Name = roomName, r_Type = roomType, r_HostID = hostID,
               r_CreatedAt = now, r_LastActivity = now,
               r_MaxPlayers = crd_MaxPlayers settings, r_RoundTime = crd_RoundTime settings,
               r_MaxRounds = crd_MaxRounds settings, r_Difficulty = crd_Difficulty settings,
               r_CustomWords = crd_CustomWords settings,
               r_State = GameStateLobby, r_Phase = GamePhaseWaiting, r_CurrentRound = 0,
               r_RoundStartTime = 0, r_Players = [], r_PlayerOrder = [],
               r_CurrentDrawer = [], r_CurrentWord = [], r_WordHint = [],
               r_GuessedPlayers = [], r_RoundEndTime = 0, r_DrawingData = []\<rparr>)"

definition GetPlayer :: "Room \<Rightarrow> string \<Rightarrow> User option" where
  "GetPlayer r userID = map_of (r_Players r) userID"

definition GetPlayerCount :: "Room \<Rightarrow> int" where
  "GetPlayerCount r = int (length (r_Players r))"

definition IsFull :: "Room \<Rightarrow> bool" where
  "IsFull r = (r_MaxPlayers r \<le> int (length (r_Players r)))"

definition AddPlayer :: "Room \<Rightarrow> User \<Rightarrow> time \<Rightarrow> bool \<times> Room" where
  "AddPlayer r user now =
     (if r_MaxPlayers r \<le> int (length (r_Players r)) then (False, r)
      else if map_of (r_Players r) (u_ID user) \<noteq> None then (False, r)
      else (True, r\<lparr>r_Players := AList.update (u_ID user) user (r_Players r),
                     r_PlayerOrder := r_PlayerOrder r @ [u_ID user],
                     r_LastActivity := now\<rparr>))"

definition assignNewHost :: "Room \<Rightarrow> Room" where
  "assignNewHost r =
     (if length (r_Players r) = 0 then r\<lparr>r_HostID := []\<rparr>
      else case find (\<lambda>playerID. map_of (r_Players r) playerID \<noteq> None) (r_PlayerOrder r) of
             Some playerID \<Rightarrow> r\<lparr>r_HostID := playerID\<rparr>
           | None \<Rightarrow> r)"

definition RemovePlayer :: "Room \<Rightarrow> string \<Rightarrow> time \<Rightarrow> bool \<times> Room" where
  "RemovePlayer r userID now =
     (if map_of (r_Players r) userID = None then (False, r)
      else
        let r1 = r\<lparr>r_Players := AList.delete userID (r_Players r),
                    r_PlayerOrder := remove1 userID (r_PlayerOrder r),
                    r_GuessedPlayers := remove1 userID (r_GuessedPlayers r)\<rparr>;
            r2 = (if r_HostID r1 = userID \<and> 0 < length (r_Players r1) then assignNewHost r1 else r1)
        in (True, r2\<lparr>r_LastActivity := now\<rparr>))"

definition CanStart :: "Room \<Rightarrow> bool" where
  "CanStart r =
     (if r_State r \<noteq> GameStateLobby then False
      else if length (r_Players r) < 2 then False
      else list_all (\<lambda>(userID, player). u_IsReady player) (r_Players r))"

definition StartGame :: "Room \<Rightarrow> time \<Rightarrow> Room" where
  "StartGame r now =
     (let r1 = r\<lparr>r_State := GameStatePlaying, r_Phase := GamePhaseDrawing, r_CurrentRound := 1,
                 r_LastActivity := now,
                 r_Players := AList.map_ran (\<lambda>userID. ResetRoundData) (r_Players r)\<rparr>
      in case r_PlayerOrder r1 of
           [] \<Rightarrow> r1
         | first # rest \<Rightarrow> r1\<lparr>r_CurrentDrawer := first\<rparr>)"

text \<open>The index search of \<^verbatim>\<open>selectNextDrawer\<close>: the first position of \<open>x\<close>, or \<open>-1\<close>.\<close>

definition indexOf :: "string list \<Rightarrow> string \<Rightarrow> int" where
  "indexOf xs x = (if x \<in> set xs then int (length (takeWhile (\<lambda>y. y \<noteq> x) xs)) else - 1)"

definition selectNextDrawer :: "Room \<Rightarrow> Room" where
  "selectNextDrawer r =
     (if length (r_PlayerOrder r) = 0 then r
      else
        let currentIndex = indexOf (r_PlayerOrder r) (r_CurrentDrawer r);
            nextIndex = (currentIndex + 1) mod int (length (r_PlayerOrder r))
        in r\<lparr>r_CurrentDrawer := r_PlayerOrder r ! nat nextIndex\<rparr>)"

definition StartNewRound :: "Room \<Rightarrow> string \<Rightarrow> string \<Rightarrow> time \<Rightarrow> Room" where
  "StartNewRound r word hint now =
     selectNextDrawer
       (r\<lparr>r_CurrentRound := r_CurrentRound r + 1, r_Phase := GamePhaseDrawing,
          r_CurrentWord := word, r_WordHint := hint,
          r_RoundStartTime := now, r_RoundEndTime := now + r_RoundTime r * second,
          r_GuessedPlayers := [], r_DrawingData := [], r_LastActivity := now,
          r_Players := AList.map_ran (\<lambda>userID. ResetRoundData) (r_Players r)\<rparr>)"

definition EndRound :: "Room \<Rightarrow> time \<Rightarrow> Room" where
  "EndRound r now = r\<lparr>r_Phase := GamePhaseResults, r_LastActivity := now\<rparr>"

definition EndGame :: "Room \<Rightarrow> time \<Rightarrow> Room" where
  "EndGame r now =
     r\<lparr>r_State := GameStateLobby, r_Phase := GamePhaseWaiting, r_CurrentRound := 0,
       r_CurrentDrawer := [], r_CurrentWord := [], r_WordHint := [],
       r_GuessedPlayers := [], r_DrawingData := [], r_LastActivity := now,
       r_Players := AList.map_ran (\<lambda>userID player. SetReady False (ResetRoundData player)) (r_Players r)\<rparr>"

definition AddGuess :: "Room \<Rightarrow> string \<Rightarrow> time \<Rightarrow> bool \<times> Room" where
  "AddGuess r userID now =
     (if userID \<in> set (r_GuessedPlayers r) then (False, r)
      else (True, r\<lparr>r_GuessedPlayers := r_GuessedPlayers r @ [userID], r_LastActivity := now\<rparr>))"

definition GetTimeLeft :: "Room \<Rightarrow> time \<Rightarrow> int" where
  "GetTimeLeft r now =
     (if r_RoundEndTime r = 0 then 0
      else if r_RoundEndTime r - now < 0 then 0
      else seconds_of (r_RoundEndTime r - now))"

definition AddDrawCommand :: "Room \<Rightarrow> DrawCommand \<Rightarrow> time \<Rightarrow> Room" where
  "AddDrawCommand r cmd now =
     r\<lparr>r_DrawingData := r_DrawingData r @ [cmd\<lparr>dc_Timestamp := now\<rparr>], r_LastActivity := now\<rparr>"

subsection \<open>Word bank and hints (\<^verbatim>\<open>services\<close>)\<close>

record WordBank =
  wb_easyWords :: "string list"
  wb_mediumWords :: "string list"
  wb_hardWords :: "string list"
  wb_usedWords :: "string set"

definition WordBank_GetRandomWord :: "WordBank \<Rightarrow> string \<Rightarrow> string \<times> WordBank" where
  "WordBank_GetRandomWord wb difficulty =
     (let words = (if difficulty = ''easy'' then wb_easyWords wb
                   else if difficulty = ''medium'' then wb_mediumWords wb
                   else if difficulty = ''hard'' then wb_hardWords wb
                   else wb_easyWords wb)
      in case words of
           [] \<Rightarrow> (''default'', wb)
         | first # rest \<Rightarrow>
             (case find (\<lambda>word. word \<notin> wb_usedWords wb) words of
                Some word \<Rightarrow> (word, wb\<lparr>wb_usedWords := insert word (wb_usedWords wb)\<rparr>)
              | None \<Rightarrow> (first, wb\<lparr>wb_usedWords := {first}\<rparr>)))"

definition Repeat :: "string \<Rightarrow> nat \<Rightarrow> string" where
  "Repeat s n = concat (replicate n s)"

fun Contains :: "string \<Rightarrow> string \<Rightarrow> bool" where
  "Contains [] substr = (substr = [])"
| "Contains (c # s) substr = (take (length substr) (c # s) = substr \<or> Contains s substr)"

fun joinChars :: "string \<Rightarrow> string" where
  "joinChars [] = []"
| "joinChars [c] = [c]"
| "joinChars (c # d # cs) = c # CHR '' '' # joinChars (d # cs)"

definition GetWordHint :: "string \<Rightarrow> string \<Rightarrow> string" where
  "GetWordHint word difficulty =
     (if difficulty = ''easy'' then Repeat ''_ '' (length word)
      else if difficulty = ''medium'' then
        (if length word \<le> 2 then Repeat ''_ '' (length word)
         else joinChars (map (\<lambda>i. if i = 0 \<or> i = length word - 1 then word ! i else CHR ''_'')
                             [0..<length word]))
      else if difficulty = ''hard'' then
        (if Contains word ''cat'' \<or> Contains word ''dog'' \<or> Contains word ''bird''
         then ''Animal'' else ''Object'')
      else Repeat ''_ '' (length word))"

definition GetRandomWord :: "WordBank \<Rightarrow> string \<Rightarrow> string \<times> string \<times> WordBank" where
  "GetRandomWord wb difficulty =
     (let (word, wb') = WordBank_GetRandomWord wb difficulty
      in (word, GetWordHint word difficulty, wb'))"

subsection \<open>Game engine: scoring and guess validation\<close>

record PointsConfig =
  BaseGuessPoints :: int
  MaxOrderBonus :: int
  MaxDifficultyBonus :: int
  MaxTimeBonus :: int
  DrawerBasePoints :: int
  DrawerBonusPerGuesser :: int

text \<open>The \<^verbatim>\<open>points\<close> section of \<^verbatim>\<open>GetDefaultConfig\<close>.\<close>

definition DefaultPoints :: PointsConfig where
  "DefaultPoints =
     \<lparr>BaseGuessPoints = 100, MaxOrderBonus = 50, MaxDifficultyBonus = 100, MaxTimeBonus = 25,
      DrawerBasePoints = 20, DrawerBonusPerGuesser = 15\<rparr>"

definition bind_err :: "error + 'a \<Rightarrow> ('a \<Rightarrow> error + 'b) \<Rightarrow> error + 'b" where
  "bind_err m f = (case m of Inl e \<Rightarrow> Inl e | Inr x \<Rightarrow> f x)"

definition CalculateGuesserPoints ::
  "PointsConfig \<Rightarrow> int \<Rightarrow> int \<Rightarrow> int \<Rightarrow> int \<Rightarrow> int \<Rightarrow> string \<Rightarrow> error + int" where
  "CalculateGuesserPoints pc guessOrder totalGuessers guessTime roundDuration totalPlayers difficulty =
     bind_err (int_of_float64 (bonus_f64 (MaxOrderBonus pc) (guessOrder - 1) totalPlayers))
       (\<lambda>orderBonus.
     bind_err (int_of_float64 (bonus_f64 (MaxDifficultyBonus pc) totalGuessers totalPlayers))
       (\<lambda>difficultyBonus.
     bind_err (int_of_float64 (bonus_f64 (MaxTimeBonus pc) guessTime roundDuration))
       (\<lambda>timeBonus.
     let points = BaseGuessPoints pc + orderBonus + difficultyBonus + timeBonus
     in if difficulty = ''medium'' then int_of_float64 (Some (fmul (float64_of_int points) (5 / 4)))
        else if difficulty = ''hard'' then int_of_float64 (Some (fmul (float64_of_int points) (3 / 2)))
        else Inr points)))"

definition CalculateDrawerPoints :: "PointsConfig \<Rightarrow> int \<Rightarrow> int \<Rightarrow> int \<Rightarrow> int" where
  "CalculateDrawerPoints pc totalGuessers totalPlayers roundDuration =
     DrawerBasePoints pc + totalGuessers * DrawerBonusPerGuesser pc"

record GuessResultData =
  g_Correct :: bool
  g_Word :: string
  g_Points :: int
  g_TotalScore :: int
  g_GuessOrder :: int
  g_Bonus :: int
  g_TimeBonus :: int
  g_OrderBonus :: int
  g_RoundEnding :: bool

text \<open>\<^verbatim>\<open>GuessResultData{Correct: false}\<close>: every other field has its zero value.\<close>

definition incorrectGuess :: GuessResultData where
  "incorrectGuess =
     \<lparr>g_Correct = False, g_Word = [], g_Points = 0, g_TotalScore = 0, g_GuessOrder = 0,
      g_Bonus = 0, g_TimeBonus = 0, g_OrderBonus = 0, g_RoundEnding = False\<rparr>"

definition updatePlayer :: "string \<Rightarrow> (User \<Rightarrow> User) \<Rightarrow> Room \<Rightarrow> Room" where
  "updatePlayer userID f r = r\<lparr>r_Players := AList.map_entry userID f (r_Players r)\<rparr>"

definition ValidateGuess ::
  "PointsConfig \<Rightarrow> Room \<Rightarrow> string \<Rightarrow> string \<Rightarrow> time \<Rightarrow> error + GuessResultData \<times> Room" where
  "ValidateGuess pc r userID guess now =
     (case GetPlayer r userID of
        None \<Rightarrow> Inr (incorrectGuess, r)
      | Some user \<Rightarrow>
          if u_HasGuessedThisRound user \<or> userID = r_CurrentDrawer r then Inr (incorrectGuess, r)
          else if ToLower (TrimSpace guess) \<noteq> ToLower (TrimSpace (r_CurrentWord r))
          then Inr (incorrectGuess, updatePlayer userID (RecordGuess False 0 now) r)
          else
            let guessOrder = int (length (r_GuessedPlayers r)) + 1;
                guessTime = seconds_of (now - r_RoundStartTime r);
                totalPlayers = int (length (r_Players r))
            in bind_err (CalculateGuesserPoints pc guessOrder (int (length (r_GuessedPlayers r)) + 1)
                           guessTime (r_RoundTime r) totalPlayers (r_Difficulty r))
                 (\<lambda>points.
               let r1 = updatePlayer userID (RecordGuess True guessOrder now) r;
                   r2 = updatePlayer userID (AddScore points) r1;
                   r3 = snd (AddGuess r2 userID now)
               in bind_err (int_of_float64 (bonus_f64 (MaxOrderBonus pc) (guessOrder - 1) totalPlayers))
                    (\<lambda>orderBonus.
                  bind_err (int_of_float64 (bonus_f64 (MaxDifficultyBonus pc)
                                              (int (length (r_GuessedPlayers r3))) totalPlayers))
                    (\<lambda>difficultyBonus.
                  bind_err (int_of_float64 (bonus_f64 (MaxTimeBonus pc) guessTime (r_RoundTime r3)))
                    (\<lambda>timeBonus.
                  Inr (\<lparr>g_Correct = True, g_Word = r_CurrentWord r3, g_Points = points,
                        g_TotalScore = (case GetPlayer r3 userID of Some u \<Rightarrow> u_Score u | None \<Rightarrow> 0),
                        g_GuessOrder = guessOrder, g_Bonus = difficultyBonus,
                        g_TimeBonus = timeBonus, g_OrderBonus = orderBonus,
                        g_RoundEnding =
                          (int (length (r_GuessedPlayers r3)) = int (length (r_Players r3)) - 1
                           \<or> GetTimeLeft r3 now \<le> 0)\<rparr>, r3))))))"

subsection \<open>Outbound frames (\<^verbatim>\<open>pkg/websocket\<close> message types)\<close>

record PublicRoomInfo =
  pri_ID :: string
  pri_Code :: string
  pri_Name :: string
  pri_Type :: RoomType
  pri_PlayerCount :: int
  pri_MaxPlayers :: int
  pri_State :: GameState
  pri_Phase :: GamePhase
  pri_CurrentRound :: int
  pri_MaxRounds :: int
  pri_RoundTime :: int
  pri_Difficulty :: string
  pri_Players :: "PublicUser list"
  pri_TimeLeft :: int
  pri_CanJoin :: bool

record ErrorData =
  ed_Message :: string
  ed_Code :: string

record ChatMessageData =
  cm_Message :: string
  cm_Username :: string
  cm_IsSystem :: bool

record PointsAwardedData =
  pa_UserID :: string
  pa_Username :: string
  pa_Points :: int
  pa_TotalScore :: int
  pa_Reason :: string

record TimerData =
  td_TimeLeft :: int
  td_Phase :: GamePhase

record NewRoundData =
  nr_Round :: int
  nr_MaxRounds :: int
  nr_DrawerID :: string
  nr_DrawerName :: string
  nr_WordHint :: string
  nr_TimeLimit :: int
  nr_Word :: string

record GuesserResult =
  gr_UserID :: string
  gr_Username :: string
  gr_Guessed :: bool
  gr_Points :: int
  gr_GuessOrder :: int
  gr_GuessTime :: int

record RoundEndData =
  re_Word :: string
  re_DrawerID :: string
  re_DrawerName :: string
  re_DrawerPoints :: int
  re_Guessers :: "GuesserResult list"
  re_Leaderboard :: "PublicUser list"
  re_NextRound :: int

record PlayerStats =
  ps_CorrectGuesses :: int
  ps_TotalGuesses :: int
  ps_Accuracy :: "float64 option"
  ps_TimesDrawer :: int
  ps_AveragePoints :: "float64 option"

record GameStats =
  gs_TotalRounds :: int
  gs_TotalPlayers :: int
  gs_AverageScore :: "float64 option"
  gs_HighestScore :: int
  gs_PlayerStats :: "(string \<times> PlayerStats) list"

record GameEndData =
  ge_Winner :: "PublicUser option"
  ge_Leaderboard :: "PublicUser list"
  ge_GameStats :: GameStats

record LeaderboardData =
  lb_Players :: "PublicUser list"
  lb_CurrentRound :: int
  lb_MaxRounds :: int

record DrawDataMessage =
  dd_Type :: string
  dd_X :: rat
  dd_Y :: rat
  dd_Color :: string
  dd_Size :: rat
  dd_UserID :: string

datatype payload =
    Msg_error ErrorData
  | Msg_chat_message ChatMessageData
  | Msg_room_joined PublicRoomInfo
  | Msg_player_joined PublicUser
  | Msg_player_left PublicUser
  | Msg_game_started PublicRoomInfo
  | Msg_new_round NewRoundData
  | Msg_round_ended RoundEndData
  | Msg_game_ended GameEndData
  | Msg_guess_result GuessResultData
  | Msg_points_awarded PointsAwardedData
  | Msg_leaderboard LeaderboardData
  | Msg_timer TimerData
  | Msg_draw_data DrawDataMessage

text \<open>
  Where a frame goes: \<open>ToClient u\<close> is \<^verbatim>\<open>client.SendMessage\<close> on the connection of
  user \<open>u\<close>; \<open>ToRoom rid ex\<close> is \<^verbatim>\<open>hub.BroadcastToRoom(rid, data, exclude)\<close>, which
  reaches every connection in the room except the excluded one. Every player of a room
  is taken to have a registered connection in that room.
\<close>

datatype target = ToClient string | ToRoom string "string option"

type_synonym frame = "target \<times> payload"

definition recipients :: "Room \<Rightarrow> target \<Rightarrow> string list" where
  "recipients r t =
     (case t of
        ToClient u \<Rightarrow> [u]
      | ToRoom rid ex \<Rightarrow>
          if rid = r_ID r then filter (\<lambda>u. Some u \<noteq> ex) (map fst (r_Players r)) else [])"

text \<open>
  \<^verbatim>\<open>json.Marshal\<close> rejects a value that holds an infinity or a NaN; the handler then
  logs and sends nothing. The only payload that can hold one is \<^verbatim>\<open>game_ended\<close>.
\<close>

definition marshals :: "GameEndData \<Rightarrow> bool" where
  "marshals d =
     (gs_AverageScore (ge_GameStats d) \<noteq> None
      \<and> list_all (\<lambda>(userID, st). ps_AveragePoints st \<noteq> None \<and> ps_Accuracy st \<noteq> None)
           (gs_PlayerStats (ge_GameStats d)))"

definition errorFrame :: "string \<Rightarrow> string \<Rightarrow> string \<Rightarrow> frame" where
  "errorFrame userID message code = (ToClient userID, Msg_error \<lparr>ed_Message = message, ed_Code = code\<rparr>)"

definition GetPublicRoomInfo :: "Room \<Rightarrow> time \<Rightarrow> PublicRoomInfo" where
  "GetPublicRoomInfo r now =
     \<lparr>pri_ID = r_ID r, pri_Code = r_Code r, pri_Name = r_Name r, pri_Type = r_Type r,
      pri_PlayerCount = int (length (r_Players r)), pri_MaxPlayers = r_MaxPlayers r,
      pri_State = r_State r, pri_Phase = r_Phase r, pri_CurrentRound = r_CurrentRound r,
      pri_MaxRounds = r_MaxRounds r, pri_RoundTime = r_RoundTime r,
      pri_Difficulty = r_Difficulty r,
      pri_Players = map (\<lambda>(userID, player). ToPublicUser player) (r_Players r),
      pri_TimeLeft = GetTimeLeft r now,
      pri_CanJoin = (r_State r = GameStateLobby \<and> \<not> IsFull r)\<rparr>"

subsection \<open>Leaderboard and winner\<close>

text \<open>
  \<^verbatim>\<open>sort.Slice\<close> belongs to Go's library, which documents it as not stable. Its
  implementation sorts a slice of fewer than 12 elements by insertion, each element
  moving left while \<^verbatim>\<open>less\<close> (here \<open>lt\<close>) holds against its left neighbour; that is the loop
  written here.
\<close>

fun insertLeft :: "('a \<Rightarrow> 'a \<Rightarrow> bool) \<Rightarrow> 'a \<Rightarrow> 'a list \<Rightarrow> 'a list" where
  "insertLeft lt x [] = [x]"
| "insertLeft lt x (y # ys) = (if lt x y then y # insertLeft lt x ys else x # y # ys)"

text \<open>\<open>insertLeft\<close> works on the sorted prefix in reverse, its last element first.\<close>

definition sortSlice :: "('a \<Rightarrow> 'a \<Rightarrow> bool) \<Rightarrow> 'a list \<Rightarrow> 'a list" where
  "sortSlice lt xs = rev (foldl (\<lambda>sorted x. insertLeft lt x sorted) [] xs)"

text \<open>
  \<^verbatim>\<open>getLeaderboard\<close>; \<open>visit\<close> is the sequence in which \<^verbatim>\<open>range room.Players\<close>
  yields the players.
\<close>

definition getLeaderboard_visiting :: "User list \<Rightarrow> PublicUser list" where
  "getLeaderboard_visiting visit = sortSlice (\<lambda>a b. pu_Score b < pu_Score a) (map ToPublicUser visit)"

definition getLeaderboard :: "Room \<Rightarrow> PublicUser list" where
  "getLeaderboard r = getLeaderboard_visiting (map snd (r_Players r))"

text \<open>
  The statistics loop of \<^verbatim>\<open>HandleGameEnd\<close> over the players in visiting order; the
  accumulator is \<^verbatim>\<open>(totalScore, highestScore, winner, playerStats)\<close>.
\<close>

fun gameEndLoop ::
  "int \<Rightarrow> User list \<Rightarrow> int \<times> int \<times> PublicUser option \<times> (string \<times> PlayerStats) list
     \<Rightarrow> int \<times> int \<times> PublicUser option \<times> (string \<times> PlayerStats) list" where
  "gameEndLoop currentRound [] acc = acc"
| "gameEndLoop currentRound (player # rest) (totalScore, highestScore, winner, playerStats) =
     (let stats = \<lparr>ps_CorrectGuesses = u_CorrectGuesses player,
                   ps_TotalGuesses = u_TotalGuesses player,
                   ps_Accuracy = GetAccuracy player,
                   ps_TimesDrawer = u_TimesDrawer player,
                   ps_AveragePoints = fdiv (float64_of_int (u_Score player)) (float64_of_int currentRound)\<rparr>;
          playerStats' = AList.update (u_ID player) stats playerStats
      in if highestScore < u_Score player
         then gameEndLoop currentRound rest
                (totalScore + u_Score player, u_Score player, Some (ToPublicUser player), playerStats')
         else gameEndLoop currentRound rest
                (totalScore + u_Score player, highestScore, winner, playerStats'))"

definition gameEndData_visiting :: "Room \<Rightarrow> User list \<Rightarrow> GameEndData" where
  "gameEndData_visiting r visit =
     (let (totalScore, highestScore, winner, playerStats) =
            gameEndLoop (r_CurrentRound r) visit (0, 0, None, [])
      in \<lparr>ge_Winner = winner, ge_Leaderboard = getLeaderboard_visiting visit,
          ge_GameStats =
            \<lparr>gs_TotalRounds = r_CurrentRound r, gs_TotalPlayers = int (length (r_Players r)),
             gs_AverageScore = fdiv (float64_of_int totalScore) (float64_of_int (int (length (r_Players r)))),
             gs_HighestScore = highestScore, gs_PlayerStats = playerStats\<rparr>\<rparr>)"

definition HandleGameEnd :: "Room \<Rightarrow> time \<Rightarrow> Room \<times> frame list" where
  "HandleGameEnd r now =
     (let gameEndData = gameEndData_visiting r (map snd (r_Players r));
          r1 = EndGame r now
      in (r1, if marshals gameEndData then [(ToRoom (r_ID r) None, Msg_game_ended gameEndData)] else []))"

subsection \<open>Round lifecycle (\<^verbatim>\<open>HandleGameStart\<close>, \<^verbatim>\<open>HandleNewRound\<close>, \<^verbatim>\<open>HandleRoundEnd\<close>)\<close>

text \<open>
  The first loop of \<^verbatim>\<open>HandleRoundEnd\<close>: one result entry for each guesser, with the
  points computed again from the player's recorded order and time.
\<close>

fun guesserResults :: "PointsConfig \<Rightarrow> Room \<Rightarrow> string list \<Rightarrow> error + GuesserResult list" where
  "guesserResults pc r [] = Inr []"
| "guesserResults pc r (userID # rest) =
     (case GetPlayer r userID of
        None \<Rightarrow> guesserResults pc r rest
      | Some player \<Rightarrow>
          bind_err
            (if 0 < u_GuessOrder player
             then CalculateGuesserPoints pc (u_GuessOrder player) (int (length (r_GuessedPlayers r)))
                    (seconds_of (u_GuessTime player - r_RoundStartTime r)) (r_RoundTime r)
                    (int (length (r_Players r))) (r_Difficulty r)
             else Inr 0)
            (\<lambda>points.
          bind_err (guesserResults pc r rest)
            (\<lambda>others.
          Inr (\<lparr>gr_UserID = u_ID player, gr_Username = u_Username player, gr_Guessed = True,
                gr_Points = points, gr_GuessOrder = u_GuessOrder player,
                gr_GuessTime = seconds_of (u_GuessTime player - r_RoundStartTime r)\<rparr> # others))))"

text \<open>The second loop: the players that are neither guessers nor the drawer.\<close>

definition nonGuesserResults :: "Room \<Rightarrow> GuesserResult list" where
  "nonGuesserResults r =
     map (\<lambda>(userID, player). \<lparr>gr_UserID = u_ID player, gr_Username = u_Username player,
                               gr_Guessed = False, gr_Points = 0, gr_GuessOrder = 0, gr_GuessTime = 0\<rparr>)
       (filter (\<lambda>(userID, player). userID \<notin> set (r_GuessedPlayers r) \<and> userID \<noteq> r_CurrentDrawer r)
          (r_Players r))"

text \<open>
  \<^verbatim>\<open>HandleRoundEnd\<close> up to and including the \<^verbatim>\<open>round_ended\<close> broadcast. The source
  reads \<^verbatim>\<open>drawer.Username\<close> without checking that the drawer was found, which is a
  nil dereference when the current drawer is not a player of the room.
\<close>

definition roundEnd :: "PointsConfig \<Rightarrow> Room \<Rightarrow> time \<Rightarrow> error + Room \<times> frame" where
  "roundEnd pc r now =
     (let drawerPoints = CalculateDrawerPoints pc (int (length (r_GuessedPlayers r)))
                           (int (length (r_Players r))) (r_RoundTime r);
          r1 = (case GetPlayer r (r_CurrentDrawer r) of
                  Some drawer \<Rightarrow>
                    updatePlayer (r_CurrentDrawer r) RecordDrawerTurn
                      (updatePlayer (r_CurrentDrawer r) (AddScore drawerPoints) r)
                | None \<Rightarrow> r)
      in bind_err (guesserResults pc r1 (r_GuessedPlayers r1))
           (\<lambda>guessed.
         case GetPlayer r1 (r_CurrentDrawer r1) of
           None \<Rightarrow> Inl NilDereference
         | Some drawer \<Rightarrow>
             let roundEndData =
                   \<lparr>re_Word = r_CurrentWord r1, re_DrawerID = r_CurrentDrawer r1,
                    re_DrawerName = u_Username drawer, re_DrawerPoints = drawerPoints,
                    re_Guessers = guessed @ nonGuesserResults r1,
                    re_Leaderboard = getLeaderboard r1,
                    re_NextRound = (if r_MaxRounds r1 \<le> r_CurrentRound r1 then 0
                                    else r_CurrentRound r1 + 1)\<rparr>;
                 r2 = EndRound (EndRound r1 now) now
             in Inr (r2, (ToRoom (r_ID r2) None, Msg_round_ended roundEndData))))"

text \<open>
  \<^verbatim>\<open>HandleRoundEnd\<close> and \<^verbatim>\<open>HandleNewRound\<close> call each other: a finished round
  starts the next one, and a new round whose drawer is not found is ended at once. The
  result is the word bank, the room and the frames sent, in order.
\<close>

function HandleRoundEnd ::
    "PointsConfig \<Rightarrow> WordBank \<Rightarrow> Room \<Rightarrow> time \<Rightarrow> error + WordBank \<times> Room \<times> frame list"
  and HandleNewRound ::
    "PointsConfig \<Rightarrow> WordBank \<Rightarrow> Room \<Rightarrow> time \<Rightarrow> error + WordBank \<times> Room \<times> frame list" where
  "HandleRoundEnd pc wb r now =
     (case roundEnd pc r now of
        Inl e \<Rightarrow> Inl e
      | Inr (r1, ended) \<Rightarrow>
          if r_MaxRounds r1 \<le> r_CurrentRound r1
          then (case HandleGameEnd r1 now of (r2, fs) \<Rightarrow> Inr (wb, r2, ended # fs))
          else (case HandleNewRound pc wb r1 now of
                  Inl e \<Rightarrow> Inl e
                | Inr (wb', r2, fs) \<Rightarrow> Inr (wb', r2, ended # fs)))"
| "HandleNewRound pc wb r now =
     (case GetRandomWord wb (r_Difficulty r) of
        (word, hint, wb1) \<Rightarrow>
          (case GetPlayer (StartNewRound r word hint now) (r_CurrentDrawer (StartNewRound r word hint now)) of
             None \<Rightarrow> HandleRoundEnd pc wb1 (StartNewRound r word hint now) now
           | Some drawer \<Rightarrow>
               let r1 = StartNewRound r word hint now;
                   drawerData = \<lparr>nr_Round = r_CurrentRound r1, nr_MaxRounds = r_MaxRounds r1,
                                 nr_DrawerID = r_CurrentDrawer r1, nr_DrawerName = u_Username drawer,
                                 nr_WordHint = r_WordHint r1, nr_TimeLimit = r_RoundTime r1,
                                 nr_Word = r_CurrentWord r1\<rparr>;
                   othersData = \<lparr>nr_Round = r_CurrentRound r1, nr_MaxRounds = r_MaxRounds r1,
                                 nr_DrawerID = r_CurrentDrawer r1, nr_DrawerName = u_Username drawer,
                                 nr_WordHint = r_WordHint r1, nr_TimeLimit = r_RoundTime r1,
                                 nr_Word = []\<rparr>
               in Inr (wb1, r1,
                       [(ToClient (r_CurrentDrawer r1), Msg_new_round drawerData),
                        (ToRoom (r_ID r1) (Some (r_CurrentDrawer r1)), Msg_new_round othersData)])))"
  by pat_completeness auto
termination
proof (relation "measure (\<lambda>x. case x of
          Inl (pc, wb, r, now) \<Rightarrow> (if GetPlayer r (r_CurrentDrawer r) = None then 0 else 2)
        | Inr (pc, wb, r, now) \<Rightarrow> 1)", goal_cases)
  case 1
  show ?case by simp
next
  case (2 pc wb r now x2 r1 ended)
  then show ?case
    by (auto simp: roundEnd_def bind_err_def Let_def updatePlayer_def GetPlayer_def
             split: sum.splits option.splits)
next
  case 3
  then show ?case by simp
qed

text \<open>
  \<^verbatim>\<open>HandleGameStart\<close>: \<^verbatim>\<open>room.StartGame()\<close>, then
  \<^verbatim>\<open>gameEngine.StartGame(room)\<close>, which calls \<^verbatim>\<open>room.StartGame()\<close> again, the
  \<^verbatim>\<open>game_started\<close> broadcast, and \<^verbatim>\<open>HandleNewRound\<close>.
\<close>

definition HandleGameStart ::
  "PointsConfig \<Rightarrow> WordBank \<Rightarrow> Room \<Rightarrow> time \<Rightarrow> error + WordBank \<times> Room \<times> frame list" where
  "HandleGameStart pc wb r now =
     (let r1 = StartGame (StartGame r now) now;
          started = (ToRoom (r_ID r1) None, Msg_game_started (GetPublicRoomInfo r1 now))
      in case HandleNewRound pc wb r1 now of
           Inl e \<Rightarrow> Inl e
         | Inr (wb', r2, fs) \<Rightarrow> Inr (wb', r2, started # fs))"

text \<open>One tick of \<^verbatim>\<open>runRoundTimer\<close>.\<close>

definition runRoundTimer_tick ::
  "PointsConfig \<Rightarrow> WordBank \<Rightarrow> Room \<Rightarrow> time \<Rightarrow> error + WordBank \<times> Room \<times> frame list" where
  "runRoundTimer_tick pc wb r now =
     (let timeLeft = GetTimeLeft r now;
          tick = (ToRoom (r_ID r) None, Msg_timer \<lparr>td_TimeLeft = timeLeft, td_Phase = r_Phase r\<rparr>)
      in if timeLeft \<le> 0
         then (case HandleRoundEnd pc wb r now of
                 Inl e \<Rightarrow> Inl e
               | Inr (wb', r2, fs) \<Rightarrow> Inr (wb', r2, tick # fs))
         else Inr (wb, r, [tick]))"

subsection \<open>Message handlers (\<^verbatim>\<open>handlers/websocket.go\<close>)\<close>

text \<open>
  A handler is given the room its client is in and the client's user object \<open>c\<close>. The
  room holds the same object under the user's identifier, so the handler reads the
  user through the room when it is a player there.
\<close>

definition clientUser :: "Room \<Rightarrow> User \<Rightarrow> User" where
  "clientUser r c = (case GetPlayer r (u_ID c) of Some u \<Rightarrow> u | None \<Rightarrow> c)"

definition handleStartGame ::
  "PointsConfig \<Rightarrow> WordBank \<Rightarrow> Room \<Rightarrow> User \<Rightarrow> time \<Rightarrow> error + WordBank \<times> Room \<times> frame list" where
  "handleStartGame pc wb r c now =
     (if r_HostID r \<noteq> u_ID c
      then Inr (wb, r, [errorFrame (u_ID c) ''Only host can start game'' ''NOT_HOST''])
      else if \<not> CanStart r
      then Inr (wb, r, [errorFrame (u_ID c) ''Not enough players or not all ready'' ''CANNOT_START''])
      else HandleGameStart pc wb r now)"

definition handleSendGuess ::
  "PointsConfig \<Rightarrow> WordBank \<Rightarrow> Room \<Rightarrow> User \<Rightarrow> string \<Rightarrow> time \<Rightarrow> error + WordBank \<times> Room \<times> frame list" where
  "handleSendGuess pc wb r c guess now =
     (if r_State r \<noteq> GameStatePlaying \<or> r_Phase r \<noteq> GamePhaseDrawing
      then Inr (wb, r, [errorFrame (u_ID c) ''Game not in progress'' ''INVALID_STATE''])
      else
        let guess' = SanitizeInput guess;
            chat = (ToRoom (r_ID r) None,
                    Msg_chat_message \<lparr>cm_Message = guess', cm_Username = u_Username (clientUser r c),
                                      cm_IsSystem = False\<rparr>)
        in case ValidateGuess pc r (u_ID c) guess' now of
             Inl e \<Rightarrow> Inl e
           | Inr (result, r1) \<Rightarrow>
               if \<not> g_Correct result then Inr (wb, r1, [chat])
               else
                 let sent =
                       [chat,
                        (ToClient (u_ID c), Msg_guess_result result),
                        (ToRoom (r_ID r) None,
                         Msg_points_awarded
                           \<lparr>pa_UserID = u_ID (clientUser r1 c), pa_Username = u_Username (clientUser r1 c),
                            pa_Points = g_Points result, pa_TotalScore = u_Score (clientUser r1 c),
                            pa_Reason = ''Correct guess''\<rparr>),
                        (ToRoom (r_ID r) None,
                         Msg_leaderboard
                           \<lparr>lb_Players = getLeaderboard r1, lb_CurrentRound = r_CurrentRound r1,
                            lb_MaxRounds = r_MaxRounds r1\<rparr>)]
                 in if g_RoundEnding result
                    then (case HandleRoundEnd pc wb r1 now of
                            Inl e \<Rightarrow> Inl e
                          | Inr (wb', r2, fs) \<Rightarrow> Inr (wb', r2, sent @ fs))
                    else Inr (wb, r1, sent))"

declare HandleRoundEnd.simps [simp del]

declare HandleNewRound.simps [simp del]

text \<open>
  \<^verbatim>\<open>handleDrawStart\<close>, \<^verbatim>\<open>handleDrawMove\<close> and \<^verbatim>\<open>handleDrawEnd\<close> differ only in
  the command they build from the message; \<open>cmd\<close> is that command.
\<close>

definition handleDraw :: "Room \<Rightarrow> User \<Rightarrow> DrawCommand \<Rightarrow> time \<Rightarrow> Room \<times> frame list" where
  "handleDraw r c cmd now =
     (if r_CurrentDrawer r \<noteq> u_ID c
      then (r, [errorFrame (u_ID c) ''Not your turn to draw'' ''NOT_DRAWER''])
      else (AddDrawCommand r cmd now,
            [(ToRoom (r_ID r) (Some (u_ID c)),
              Msg_draw_data \<lparr>dd_Type = dc_Type cmd, dd_X = dc_X cmd, dd_Y = dc_Y cmd,
                             dd_Color = dc_Color cmd, dd_Size = dc_Size cmd, dd_UserID = u_ID c\<rparr>)]))"

subsection \<open>Room registry (\<^verbatim>\<open>services/room_manager.go\<close>)\<close>

text \<open>
  The registry holds two maps to the same room objects. \<open>rm_store\<close> is the store of
  room objects, a room's address being its position; the two indexes hold addresses,
  which are always positions of the store.
\<close>

record RoomManager =
  rm_store :: "Room list"
  rm_rooms :: "string \<rightharpoonup> nat"
  rm_roomByCode :: "string \<rightharpoonup> nat"



definition GetRoom :: "RoomManager \<Rightarrow> string \<Rightarrow> nat option" where
  "GetRoom rm roomID = rm_rooms rm roomID"

definition GetRoomByCode :: "RoomManager \<Rightarrow> string \<Rightarrow> nat option" where
  "GetRoomByCode rm code = rm_roomByCode rm code"

definition JoinRoom :: "RoomManager \<Rightarrow> string \<Rightarrow> string \<Rightarrow> User \<Rightarrow> time \<Rightarrow> bool \<times> RoomManager" where
  "JoinRoom rm roomID userID user now =
     (case rm_rooms rm roomID of
        None \<Rightarrow> (False, rm)
      | Some a \<Rightarrow>
          if IsFull (rm_store rm ! a) then (False, rm)
          else (case AddPlayer (rm_store rm ! a) user now of
                  (ok, room') \<Rightarrow> (ok, rm\<lparr>rm_store := (rm_store rm)[a := room']\<rparr>)))"

definition LeaveRoom :: "RoomManager \<Rightarrow> string \<Rightarrow> string \<Rightarrow> time \<Rightarrow> bool \<times> RoomManager" where
  "LeaveRoom rm roomID userID now =
     (case rm_rooms rm roomID of
        None \<Rightarrow> (False, rm)
      | Some a \<Rightarrow>
          (case RemovePlayer (rm_store rm ! a) userID now of
             (True, room') \<Rightarrow>
               let rm1 = rm\<lparr>rm_store := (rm_store rm)[a := room']\<rparr>
               in if GetPlayerCount room' = 0
                  then (True, rm1\<lparr>rm_rooms := (rm_rooms rm1)(roomID := None),
                                  rm_roomByCode := (rm_roomByCode rm1)(r_Code room' := None)\<rparr>)
                  else (True, rm1)
           | (False, room') \<Rightarrow> (False, rm)))"

definition handleJoinRoom :: "RoomManager \<Rightarrow> User \<Rightarrow> string \<Rightarrow> time \<Rightarrow> RoomManager \<times> frame list" where
  "handleJoinRoom rm c roomCode now =
     (let code = NormalizeRoomCode roomCode
      in if \<not> ValidateRoomCode code
         then (rm, [errorFrame (u_ID c) ''Invalid room code'' ''INVALID_ROOM_CODE''])
         else case GetRoomByCode rm code of
                None \<Rightarrow> (rm, [errorFrame (u_ID c) ''Room not found'' ''ROOM_NOT_FOUND''])
              | Some a \<Rightarrow>
                  (case JoinRoom rm (r_ID (rm_store rm ! a)) (u_ID c) c now of
                     (False, rm') \<Rightarrow> (rm', [errorFrame (u_ID c) ''Failed to join room'' ''JOIN_FAILED''])
                   | (True, rm') \<Rightarrow>
                       (rm', [(ToClient (u_ID c), Msg_room_joined (GetPublicRoomInfo (rm_store rm' ! a) now)),
                              (ToRoom (r_ID (rm_store rm' ! a)) (Some (u_ID c)),
                               Msg_player_joined (ToPublicUser c))])))"

text \<open>
  A frame respects the secret when, if it is a \<^verbatim>\<open>new_round\<close> frame that carries the
  word, it is the one sent to the drawer it names.
\<close>

definition wordOnlyToDrawer :: "frame \<Rightarrow> bool" where
  "wordOnlyToDrawer f =
     (case f of
        (t, Msg_new_round d) \<Rightarrow> nr_Word d = [] \<or> t = ToClient (nr_DrawerID d)
      | (t, other) \<Rightarrow> True)"

subsection \<open>The life of one room\<close>

text \<open>
  The operations that reach a room once it is registered, each an atomic step: a join
  and a leave through the registry, a player's ready flag (\<^verbatim>\<open>User.SetReady\<close>), the
  three game messages, and a tick of a round timer. \<open>step\<close> gives the room after the
  operation and the frames it sends. The source has no message that sets the ready flag
  to true, and \<^verbatim>\<open>CanStart\<close> asks for it, so the flag is an operation of its own here.
  A message is given to its handler already decoded; the answer \<open>INVALID_DATA\<close> to a
  message that does not decode is not modelled.
\<close>

datatype event =
    Join User
  | Leave User
  | Ready string bool
  | StartGameMsg User
  | GuessMsg User string
  | DrawMsg User DrawCommand
  | Tick

definition step ::
  "PointsConfig \<Rightarrow> time \<Rightarrow> event \<Rightarrow> WordBank \<times> Room \<Rightarrow> error + WordBank \<times> Room \<times> frame list" where
  "step pc now ev w =
     (case w of (wb, r) \<Rightarrow>
        (case ev of
           Join c \<Rightarrow>
             if IsFull r
             then Inr (wb, r, [errorFrame (u_ID c) ''Failed to join room'' ''JOIN_FAILED''])
             else (case AddPlayer r c now of
                     (False, r') \<Rightarrow> Inr (wb, r', [errorFrame (u_ID c) ''Failed to join room'' ''JOIN_FAILED''])
                   | (True, r') \<Rightarrow>
                       Inr (wb, r', [(ToClient (u_ID c), Msg_room_joined (GetPublicRoomInfo r' now)),
                                     (ToRoom (r_ID r') (Some (u_ID c)), Msg_player_joined (ToPublicUser c))]))
         | Leave c \<Rightarrow>
             (case RemovePlayer r (u_ID c) now of
                (ok, r') \<Rightarrow>
                  Inr (wb, r', [(ToRoom (r_ID r') None, Msg_player_left (ToPublicUser (clientUser r c))),
                                (ToClient (u_ID c),
                                 Msg_chat_message \<lparr>cm_Message = ''You have left the room'',
                                                   cm_Username = ''System'', cm_IsSystem = True\<rparr>)]))
         | Ready userID ready \<Rightarrow> Inr (wb, updatePlayer userID (SetReady ready) r, [])
         | StartGameMsg c \<Rightarrow> handleStartGame pc wb r c now
         | GuessMsg c guess \<Rightarrow> handleSendGuess pc wb r c guess now
         | DrawMsg c cmd \<Rightarrow> (case handleDraw r c cmd now of (r', fs) \<Rightarrow> Inr (wb, r', fs))
         | Tick \<Rightarrow> runRoundTimer_tick pc wb r now))"

inductive reachable :: "PointsConfig \<Rightarrow> WordBank \<times> Room \<Rightarrow> bool" for pc :: PointsConfig where
  created: "NewRoom rnd rid hostID roomType roomName settings now = Inr r \<Longrightarrow> reachable pc (wb, r)"
| stepped: "reachable pc w \<Longrightarrow> step pc now ev w = Inr (wb', r', fs) \<Longrightarrow> reachable pc (wb', r')"

text \<open>A run from a given state: the events with their clock readings, in order.\<close>

fun run ::
  "PointsConfig \<Rightarrow> (time \<times> event) list \<Rightarrow> WordBank \<times> Room \<Rightarrow> error + (WordBank \<times> Room) \<times> frame list" where
  "run pc [] w = Inr (w, [])"
| "run pc ((now, ev) # evs) w =
     (case step pc now ev w of
        Inl e \<Rightarrow> Inl e
      | Inr (wb', r', fs) \<Rightarrow>
          (case run pc evs (wb', r') of
             Inl e \<Rightarrow> Inl e
           | Inr (w', fs') \<Rightarrow> Inr (w', fs @ fs')))"

subsection \<open>The scoring rule as the specification words it\<close>

text \<open>
  The specification's formula over exact numbers: each bonus is the floor of
  \<open>B \<times> (1 - x / y)\<close>, and the sum is multiplied by the difficulty multiplier and floored.
\<close>

definition spec_bonus :: "int \<Rightarrow> int \<Rightarrow> int \<Rightarrow> int" where
  "spec_bonus B x y = \<lfloor>of_int B * (1 - of_int x / of_int y :: rat)\<rfloor>"

definition spec_multiplier :: "string \<Rightarrow> rat" where
  "spec_multiplier difficulty =
     (if difficulty = ''medium'' then 5 / 4 else if difficulty = ''hard'' then 3 / 2 else 1)"

definition spec_guesser_points ::
  "PointsConfig \<Rightarrow> int \<Rightarrow> int \<Rightarrow> int \<Rightarrow> int \<Rightarrow> int \<Rightarrow> string \<Rightarrow> int" where
  "spec_guesser_points pc guess_order total_correct_guessers guess_seconds round_time_seconds
       total_players difficulty =
     (let order_bonus = spec_bonus (MaxOrderBonus pc) (guess_order - 1) total_players;
          difficulty_bonus = spec_bonus (MaxDifficultyBonus pc) total_correct_guessers total_players;
          time_bonus = spec_bonus (MaxTimeBonus pc) guess_seconds round_time_seconds;
          subtotal = BaseGuessPoints pc + order_bonus + difficulty_bonus + time_bonus
      in \<lfloor>spec_multiplier difficulty * of_int subtotal\<rfloor>)"

subsection \<open>Sample runs\<close>

definition wordBank0 :: WordBank where
  "wordBank0 =
     \<lparr>wb_easyWords = [''cat'', ''sun'', ''tree''], wb_mediumWords = [], wb_hardWords = [],
      wb_usedWords = {}\<rparr>"

definition settings0 :: CreateRoomData where
  "settings0 =
     \<lparr>crd_RoomName = ''Doodle'', crd_RoomType = ''public'', crd_MaxPlayers = 4,
      crd_RoundTime = 60, crd_MaxRounds = 2, crd_Difficulty = ''easy'', crd_CustomWords = []\<rparr>"

definition alice :: User where
  "alice = NewUser ''A'' ''Alice'' ''a'' 0"

definition bob :: User where
  "bob = NewUser ''B'' ''Bob'' ''b'' 0"

definition carol :: User where
  "carol = NewUser ''C'' ''Carol'' ''c'' 0"

text \<open>
  A run that starts from a room created by \<open>A\<close> with the settings above and the
  source's placeholder random numbers.
\<close>

definition startOf :: "(time \<times> event) list \<Rightarrow> error + (WordBank \<times> Room) \<times> frame list" where
  "startOf evs =
     bind_err (NewRoom (\<lambda>i. generateRandomInt) ''room_1'' ''A'' RoomTypePublic ''Doodle'' settings0 0)
       (\<lambda>r. run DefaultPoints evs (wordBank0, r))"

definition twoPlayerStart :: "(time \<times> event) list" where
  "twoPlayerStart =
     [(1, Join alice), (2, Join bob), (3, Ready ''A'' True), (4, Ready ''B'' True),
      (5 * second, StartGameMsg alice)]"

definition threePlayerStart :: "(time \<times> event) list" where
  "threePlayerStart =
     [(1, Join alice), (2, Join bob), (3, Join carol), (4, Ready ''A'' True), (5, Ready ''B'' True),
      (6, Ready ''C'' True), (5 * second, StartGameMsg alice)]"

text \<open>
  The room that \<open>threePlayerStart\<close> leaves behind, written out: the game is running,
  \<open>B\<close> draws \<open>cat\<close>, nobody has guessed, the round began at 5s and ends at 65s.
\<close>

definition wordBank1 :: WordBank where
  "wordBank1 = wordBank0\<lparr>wb_usedWords := {''cat''}\<rparr>"

definition midRound :: Room where
  "midRound =
     \<lparr>r_ID = ''room_1'', r_Code = ''AAAAAA'', r_Name = ''Doodle'', r_Type = RoomTypePublic,
      r_HostID = ''A'', r_CreatedAt = 0, r_LastActivity = 5 * second,
      r_MaxPlayers = 4, r_RoundTime = 60, r_MaxRounds = 2, r_Difficulty = ''easy'',
      r_CustomWords = [],
      r_State = GameStatePlaying, r_Phase = GamePhaseDrawing, r_CurrentRound = 2,
      r_RoundStartTime = 5 * second,
      r_Players = [(''A'', alice), (''B'', bob), (''C'', carol)],
      r_PlayerOrder = [''A'', ''B'', ''C''],
      r_CurrentDrawer = ''B'', r_CurrentWord = ''cat'', r_WordHint = ''_ _ _ '',
      r_GuessedPlayers = [], r_RoundEndTime = 65 * second, r_DrawingData = []\<rparr>"

text \<open>The same room after \<open>C\<close> has guessed the word at 15s.\<close>

definition afterGuess :: "error + WordBank \<times> Room \<times> frame list" where
  "afterGuess = step DefaultPoints (15 * second) (GuessMsg carol ''cat'') (wordBank1, midRound)"


text \<open>A registry that holds the running room, and a fourth user.\<close>

definition registry1 :: RoomManager where
  "registry1 =
     \<lparr>rm_store = [midRound], rm_rooms = [''room_1'' \<mapsto> 0], rm_roomByCode = [''AAAAAA'' \<mapsto> 0]\<rparr>"

definition dave :: User where
  "dave = NewUser ''D'' ''Dave'' ''d'' 0"

text \<open>The room that \<^verbatim>\<open>create_room\<close> makes when the message asks for \<open>max_players = -1\<close>.\<close>

definition negativeRoom :: Room where
  "negativeRoom =
     \<lparr>r_ID = ''room_1'', r_Code = ''AAAAAA'', r_Name = ''Doodle'', r_Type = RoomTypePublic,
      r_HostID = ''A'', r_CreatedAt = 0, r_LastActivity = 0,
      r_MaxPlayers = - 1, r_RoundTime = 60, r_MaxRounds = 2, r_Difficulty = ''easy'',
      r_CustomWords = [],
      r_State = GameStateLobby, r_Phase = GamePhaseWaiting, r_CurrentRound = 0,
      r_RoundStartTime = 0, r_Players = [], r_PlayerOrder = [],
      r_CurrentDrawer = [], r_CurrentWord = [], r_WordHint = [],
      r_GuessedPlayers = [], r_RoundEndTime = 0, r_DrawingData = []\<rparr>"

text \<open>
  A round of two players in which \<open>A\<close> draws \<open>cat\<close>; the round began at 5s and lasts
  60s.
\<close>

definition twoPlayerRound :: Room where
  "twoPlayerRound =
     midRound\<lparr>r_Players := [(''A'', alice), (''B'', bob)], r_PlayerOrder := [''A'', ''B''],
               r_CurrentDrawer := ''A'', r_CurrentRound := 1\<rparr>"

text \<open>Two players with the same score, one of whom joined before the other.\<close>

definition earlyUser :: User where
  "earlyUser = (NewUser ''E'' ''Eve'' ''e'' 1)\<lparr>u_Score := 100\<rparr>"

definition lateUser :: User where
  "lateUser = (NewUser ''L'' ''Leo'' ''l'' 2)\<lparr>u_Score := 100\<rparr>"


text \<open>What a run announced: the awards of the \<^verbatim>\<open>points_awarded\<close> frames, and the
  drawer's and the guessers' points listed by the \<^verbatim>\<open>round_ended\<close> frames.\<close>

fun pointsAwarded :: "frame list \<Rightarrow> (string \<times> int) list" where
  "pointsAwarded [] = []"
| "pointsAwarded ((t, Msg_points_awarded d) # fs) = (pa_UserID d, pa_Points d) # pointsAwarded fs"
| "pointsAwarded (f # fs) = pointsAwarded fs"

fun roundEndedPoints :: "frame list \<Rightarrow> (string \<times> int) list" where
  "roundEndedPoints [] = []"
| "roundEndedPoints ((t, Msg_round_ended d) # fs) =
     (re_DrawerID d, re_DrawerPoints d)
       # map (\<lambda>g. (gr_UserID g, gr_Points g)) (re_Guessers d) @ roundEndedPoints fs"
| "roundEndedPoints (f # fs) = roundEndedPoints fs"

definition scores :: "Room \<Rightarrow> (string \<times> int) list" where
  "scores r = map (\<lambda>(userID, player). (userID, u_Score player)) (r_Players r)"

section \<open>Properties\<close>

subsection \<open>Starting a game\<close>

lemma first_round_after_start:
  assumes "r_PlayerOrder r = a # b # rest" and "a \<noteq> b"
  shows "r_CurrentRound (StartNewRound (StartGame (StartGame r now) now) word hint now) = 2"
    and "r_CurrentDrawer (StartNewRound (StartGame (StartGame r now) now) word hint now) = b"
  using assms by (simp_all add: StartNewRound_def StartGame_def selectNextDrawer_def indexOf_def)

text \<open>
  C2. The host starts a game in a room whose join order is \<open>A, B\<close>. \<^verbatim>\<open>StartGame\<close> sets
  round 1 and drawer \<open>A\<close>, and \<^verbatim>\<open>HandleNewRound\<close> then increments the round and
  rotates the drawer before anything is played: the first \<^verbatim>\<open>new_round\<close> frames announce
  round 2 with drawer \<open>B\<close>, and that is the state of the room.
\<close>

theorem first_round_is_round_two:
  "map_sum id (\<lambda>((wb, r), fs). (r_State r, r_CurrentRound r, r_PlayerOrder r, r_CurrentDrawer r, drop 5 fs))
     (startOf twoPlayerStart)
   = Inr (GameStatePlaying, 2, [''A'', ''B''], ''B'',
          [(ToClient ''B'',
            Msg_new_round \<lparr>nr_Round = 2, nr_MaxRounds = 2, nr_DrawerID = ''B'', nr_DrawerName = ''Bob'',
                           nr_WordHint = ''_ _ _ '', nr_TimeLimit = 60, nr_Word = ''cat''\<rparr>),
           (ToRoom ''room_1'' (Some ''B''),
            Msg_new_round \<lparr>nr_Round = 2, nr_MaxRounds = 2, nr_DrawerID = ''B'', nr_DrawerName = ''Bob'',
                           nr_WordHint = ''_ _ _ '', nr_TimeLimit = 60, nr_Word = []\<rparr>)])"
  by code_simp

subsection \<open>Room codes\<close>


subsection \<open>Ending a game\<close>

text \<open>
  C10. \<^verbatim>\<open>EndGame\<close> puts the room back into a lobby: state, phase, round number, drawer,
  word, hint, guessed players and drawing log are reset, and the activity stamp is set.
  Every player keeps its key and every field except the ready flag and the three
  per-round fields, which are cleared; in particular score, correct guesses, total
  guesses and drawer turns are kept. No other field of the room changes.
\<close>

theorem EndGame_resets_progress_only:
  "r_State (EndGame r now) = GameStateLobby
   \<and> r_Phase (EndGame r now) = GamePhaseWaiting
   \<and> r_CurrentRound (EndGame r now) = 0
   \<and> r_CurrentDrawer (EndGame r now) = []
   \<and> r_CurrentWord (EndGame r now) = []
   \<and> r_WordHint (EndGame r now) = []
   \<and> r_GuessedPlayers (EndGame r now) = []
   \<and> r_DrawingData (EndGame r now) = []
   \<and> r_LastActivity (EndGame r now) = now
   \<and> r_Players (EndGame r now)
       = map (\<lambda>(userID, player).
                (userID, player\<lparr>u_IsReady := False, u_HasGuessedThisRound := False,
                                u_GuessTime := 0, u_GuessOrder := 0\<rparr>))
           (r_Players r)
   \<and> map (\<lambda>(userID, player). (userID, u_Score player, u_CorrectGuesses player,
                                u_TotalGuesses player, u_TimesDrawer player))
        (r_Players (EndGame r now))
       = map (\<lambda>(userID, player). (userID, u_Score player, u_CorrectGuesses player,
                                    u_TotalGuesses player, u_TimesDrawer player))
           (r_Players r)
   \<and> (EndGame r now)\<lparr>r_State := s, r_Phase := p, r_CurrentRound := n, r_CurrentDrawer := d,
                       r_CurrentWord := w, r_WordHint := h, r_GuessedPlayers := g,
                       r_DrawingData := dd, r_LastActivity := t, r_Players := ps\<rparr>
       = r\<lparr>r_State := s, r_Phase := p, r_CurrentRound := n, r_CurrentDrawer := d,
            r_CurrentWord := w, r_WordHint := h, r_GuessedPlayers := g,
            r_DrawingData := dd, r_LastActivity := t, r_Players := ps\<rparr>"
  by (simp add: EndGame_def AList.map_ran_def SetReady_def ResetRoundData_def split_def)

subsection \<open>What the handlers keep\<close>

lemma map_fst_map_entry [simp]: "map fst (AList.map_entry k f al) = map fst al"
  by (induction al) auto

lemma length_map_entry [simp]: "length (AList.map_entry k f al) = length al"
  by (induction al) auto

lemma map_fst_map_ran [simp]: "map fst (AList.map_ran f al) = map fst al"
  by (induction al) (auto simp: AList.map_ran_def)

lemma update_fresh: "map_of al k = None \<Longrightarrow> AList.update k v al = al @ [(k, v)]"
  by (induction al) (auto split: if_splits)


lemma updatePlayer_fields [simp]:
  "r_GuessedPlayers (updatePlayer k f r) = r_GuessedPlayers r"
  "r_CurrentDrawer (updatePlayer k f r) = r_CurrentDrawer r"
  "r_MaxPlayers (updatePlayer k f r) = r_MaxPlayers r"
  "r_State (updatePlayer k f r) = r_State r"
  "r_Phase (updatePlayer k f r) = r_Phase r"
  "r_CurrentRound (updatePlayer k f r) = r_CurrentRound r"
  "r_MaxRounds (updatePlayer k f r) = r_MaxRounds r"
  "r_PlayerOrder (updatePlayer k f r) = r_PlayerOrder r"
  "map fst (r_Players (updatePlayer k f r)) = map fst (r_Players r)"
  "length (r_Players (updatePlayer k f r)) = length (r_Players r)"
  by (simp_all add: updatePlayer_def)

lemma roundEnd_keeps:
  assumes "roundEnd pc r now = Inr (r1, f)"
  shows "r_GuessedPlayers r1 = r_GuessedPlayers r" "r_CurrentDrawer r1 = r_CurrentDrawer r"
        "map fst (r_Players r1) = map fst (r_Players r)" "r_MaxPlayers r1 = r_MaxPlayers r"
  using assms
  by (auto simp: roundEnd_def bind_err_def Let_def EndRound_def split: sum.splits option.splits)

lemma selectNextDrawer_fields [simp]:
  "r_GuessedPlayers (selectNextDrawer r) = r_GuessedPlayers r"
  "r_Players (selectNextDrawer r) = r_Players r"
  "r_MaxPlayers (selectNextDrawer r) = r_MaxPlayers r"
  by (simp_all add: selectNextDrawer_def Let_def)

lemma StartNewRound_fields [simp]:
  "r_GuessedPlayers (StartNewRound r word hint now) = []"
  "map fst (r_Players (StartNewRound r word hint now)) = map fst (r_Players r)"
  "r_MaxPlayers (StartNewRound r word hint now) = r_MaxPlayers r"
  by (simp_all add: StartNewRound_def)

lemma HandleGameEnd_fields:
  "r_GuessedPlayers (fst (HandleGameEnd r now)) = []"
  "r_CurrentDrawer (fst (HandleGameEnd r now)) = []"
  "map fst (r_Players (fst (HandleGameEnd r now))) = map fst (r_Players r)"
  "r_MaxPlayers (fst (HandleGameEnd r now)) = r_MaxPlayers r"
  by (simp_all add: HandleGameEnd_def Let_def EndGame_def)

lemma round_handlers_keep:
  "HandleRoundEnd pc wb r now = Inr (wb', r', fs) \<Longrightarrow>
     r_GuessedPlayers r' = [] \<and> map fst (r_Players r') = map fst (r_Players r) \<and> r_MaxPlayers r' = r_MaxPlayers r"
  "HandleNewRound pc wb r now = Inr (wb', r', fs) \<Longrightarrow>
     r_GuessedPlayers r' = [] \<and> map fst (r_Players r') = map fst (r_Players r) \<and> r_MaxPlayers r' = r_MaxPlayers r"
proof (induction pc wb r now and pc wb r now arbitrary: wb' r' fs and wb' r' fs
       rule: HandleRoundEnd_HandleNewRound.induct)
  case (1 pc wb r now)
  from "1.prems" obtain r1 ended where re: "roundEnd pc r now = Inr (r1, ended)"
    by (auto simp: HandleRoundEnd.simps split: sum.splits)
  note keep = roundEnd_keeps[OF re]
  show ?case
  proof (cases "r_MaxRounds r1 \<le> r_CurrentRound r1")
    case True
    with "1.prems" re have "r' = fst (HandleGameEnd r1 now)"
      by (auto simp: HandleRoundEnd.simps split: prod.splits)
    then show ?thesis using keep by (simp add: HandleGameEnd_fields)
  next
    case False
    with "1.prems" re obtain wb2 fs2 where "HandleNewRound pc wb r1 now = Inr (wb2, r', fs2)"
      by (auto simp: HandleRoundEnd.simps split: sum.splits)
    from "1.IH"[OF re refl False this] show ?thesis using keep by simp
  qed
next
  case (2 pc wb r now)
  obtain word hint wb1 where g: "GetRandomWord wb (r_Difficulty r) = (word, hint, wb1)"
    by (cases "GetRandomWord wb (r_Difficulty r)") auto
  let ?r1 = "StartNewRound r word hint now"
  show ?case
  proof (cases "GetPlayer ?r1 (r_CurrentDrawer ?r1)")
    case None
    with "2.prems" g have "HandleRoundEnd pc wb1 ?r1 now = Inr (wb', r', fs)"
      by (simp add: HandleNewRound.simps)
    from "2.IH"[OF g[symmetric] refl None this] show ?thesis by simp
  next
    case (Some drawer)
    with "2.prems" g have "r' = ?r1"
      by (simp add: HandleNewRound.simps Let_def)
    then show ?thesis by simp
  qed
qed


lemma AddGuess_fields [simp]:
  "r_Players (snd (AddGuess r k now)) = r_Players r"
  "r_CurrentDrawer (snd (AddGuess r k now)) = r_CurrentDrawer r"
  "r_MaxPlayers (snd (AddGuess r k now)) = r_MaxPlayers r"
  "r_GuessedPlayers (snd (AddGuess r k now)) =
     (if k \<in> set (r_GuessedPlayers r) then r_GuessedPlayers r else r_GuessedPlayers r @ [k])"
  by (simp_all add: AddGuess_def)

lemma ValidateGuess_keeps:
  assumes "ValidateGuess pc r userID guess now = Inr (res, r1)"
  shows "r_CurrentDrawer r1 = r_CurrentDrawer r"
    and "map fst (r_Players r1) = map fst (r_Players r)"
    and "r_MaxPlayers r1 = r_MaxPlayers r"
    and "r_GuessedPlayers r1 = r_GuessedPlayers r
         \<or> userID \<noteq> r_CurrentDrawer r \<and> userID \<notin> set (r_GuessedPlayers r)
           \<and> r_GuessedPlayers r1 = r_GuessedPlayers r @ [userID]"
  using assms
  by (auto simp: ValidateGuess_def bind_err_def Let_def split: option.splits if_splits sum.splits)

lemma ValidateGuess_guessed:
  assumes "ValidateGuess pc r userID guess now = Inr (res, r1)"
    and "distinct (r_GuessedPlayers r)" and "r_CurrentDrawer r \<notin> set (r_GuessedPlayers r)"
  shows "distinct (r_GuessedPlayers r1) \<and> r_CurrentDrawer r1 \<notin> set (r_GuessedPlayers r1)"
  using ValidateGuess_keeps(1,4)[OF assms(1)] assms(2,3) by auto


lemma StartGame_fields [simp]:
  "map fst (r_Players (StartGame r now)) = map fst (r_Players r)"
  "r_MaxPlayers (StartGame r now) = r_MaxPlayers r"
  by (simp_all add: StartGame_def Let_def split: list.splits)

lemma length_players_eq: "map fst (r_Players r') = map fst (r_Players r) \<Longrightarrow> length (r_Players r') = length (r_Players r)"
  by (metis length_map)

lemma assignNewHost_fields [simp]:
  "r_Players (assignNewHost r) = r_Players r"
  "r_GuessedPlayers (assignNewHost r) = r_GuessedPlayers r"
  "r_CurrentDrawer (assignNewHost r) = r_CurrentDrawer r"
  "r_MaxPlayers (assignNewHost r) = r_MaxPlayers r"
  by (simp_all add: assignNewHost_def split: option.splits)

lemma step_preserves:
  assumes "step pc now ev (wb, r) = Inr (wb', r', fs)"
  shows "r_MaxPlayers r' = r_MaxPlayers r"
    and "length (r_Players r') \<le> length (r_Players r) \<or> int (length (r_Players r')) \<le> r_MaxPlayers r"
    and "distinct (r_GuessedPlayers r) \<and> r_CurrentDrawer r \<notin> set (r_GuessedPlayers r)
         \<longrightarrow> distinct (r_GuessedPlayers r') \<and> r_CurrentDrawer r' \<notin> set (r_GuessedPlayers r')"
proof -
  have "r_MaxPlayers r' = r_MaxPlayers r
     \<and> (length (r_Players r') \<le> length (r_Players r) \<or> int (length (r_Players r')) \<le> r_MaxPlayers r)
     \<and> (distinct (r_GuessedPlayers r) \<and> r_CurrentDrawer r \<notin> set (r_GuessedPlayers r)
         \<longrightarrow> distinct (r_GuessedPlayers r') \<and> r_CurrentDrawer r' \<notin> set (r_GuessedPlayers r'))"
  proof (cases ev)
    case (Join c)
    with assms show ?thesis
      by (auto simp: step_def IsFull_def AddPlayer_def update_fresh split: if_splits)
  next
    case (Leave c)
    with assms show ?thesis
      by (auto simp: step_def RemovePlayer_def Let_def length_delete_le
               split: if_splits dest: notin_set_remove1)
  next
    case (Ready userID ready)
    with assms show ?thesis by (auto simp: step_def)
  next
    case (StartGameMsg c)
    show ?thesis
    proof (cases "r_HostID r \<noteq> u_ID c \<or> \<not> CanStart r")
      case True
      with assms StartGameMsg show ?thesis
        by (auto simp: step_def handleStartGame_def split: if_splits)
    next
      case False
      with assms StartGameMsg obtain wb2 fs2 where
        "HandleNewRound pc wb (StartGame (StartGame r now) now) now = Inr (wb2, r', fs2)"
        by (auto simp: step_def handleStartGame_def HandleGameStart_def Let_def split: sum.splits)
      from round_handlers_keep(2)[OF this] show ?thesis
        by (auto dest: length_players_eq)
    qed
  next
    case (GuessMsg c guess)
    show ?thesis
    proof (cases "r_State r \<noteq> GameStatePlaying \<or> r_Phase r \<noteq> GamePhaseDrawing")
      case True
      with assms GuessMsg show ?thesis
        by (auto simp: step_def handleSendGuess_def split: if_splits)
    next
      case False
      with assms GuessMsg obtain res r1 where
        v: "ValidateGuess pc r (u_ID c) (SanitizeInput guess) now = Inr (res, r1)"
        by (auto simp: step_def handleSendGuess_def Let_def split: sum.splits)
      note k = ValidateGuess_keeps[OF v] ValidateGuess_guessed[OF v]
      show ?thesis
      proof (cases "g_Correct res \<and> g_RoundEnding res")
        case True
        with assms GuessMsg False v obtain wb2 fs2 where
          "HandleRoundEnd pc wb r1 now = Inr (wb2, r', fs2)"
          by (auto simp: step_def handleSendGuess_def Let_def split: sum.splits)
        from round_handlers_keep(1)[OF this] k(1-3) show ?thesis
          by (auto dest: length_players_eq)
      next
        case nend: False
        with assms GuessMsg False v have "r' = r1"
          by (auto simp: step_def handleSendGuess_def Let_def split: if_splits)
        with k show ?thesis by (auto dest: length_players_eq)
      qed
    qed
  next
    case (DrawMsg c cmd)
    with assms show ?thesis
      by (auto simp: step_def handleDraw_def AddDrawCommand_def split: if_splits)
  next
    case Tick
    show ?thesis
    proof (cases "GetTimeLeft r now \<le> 0")
      case True
      with assms Tick obtain wb2 fs2 where "HandleRoundEnd pc wb r now = Inr (wb2, r', fs2)"
        by (auto simp: step_def runRoundTimer_tick_def Let_def split: sum.splits)
      from round_handlers_keep(1)[OF this] show ?thesis by (auto dest: length_players_eq)
    next
      case False
      with assms Tick show ?thesis
        by (auto simp: step_def runRoundTimer_tick_def Let_def)
    qed
  qed
  then show "r_MaxPlayers r' = r_MaxPlayers r"
    and "length (r_Players r') \<le> length (r_Players r) \<or> int (length (r_Players r')) \<le> r_MaxPlayers r"
    and "distinct (r_GuessedPlayers r) \<and> r_CurrentDrawer r \<notin> set (r_GuessedPlayers r)
         \<longrightarrow> distinct (r_GuessedPlayers r') \<and> r_CurrentDrawer r' \<notin> set (r_GuessedPlayers r')"
    by blast+
qed

lemma NewRoom_fields:
  assumes "NewRoom rnd rid hostID roomType roomName settings now = Inr r"
  shows "r_Players r = []" "r_GuessedPlayers r = []" "r_MaxPlayers r = crd_MaxPlayers settings"
  using assms by (auto simp: NewRoom_def split: sum.splits)

lemma reachable_inv:
  assumes "reachable pc w"
  shows "distinct (r_GuessedPlayers (snd w)) \<and> r_CurrentDrawer (snd w) \<notin> set (r_GuessedPlayers (snd w))
         \<and> (0 \<le> r_MaxPlayers (snd w) \<longrightarrow> int (length (r_Players (snd w))) \<le> r_MaxPlayers (snd w))"
  using assms
proof (induction rule: reachable.induct)
  case (created rnd rid hostID roomType roomName settings now r wb)
  then show ?case by (simp add: NewRoom_fields)
next
  case (stepped w now ev wb' r' fs)
  obtain wb r where w: "w = (wb, r)" by (cases w)
  from step_preserves[OF stepped.hyps(2)[unfolded w]] stepped.IH show ?case
    by (auto simp: w)
qed

subsection \<open>The sample runs are reachable\<close>

lemma threePlayerStart_state:
  "map_sum id fst (startOf threePlayerStart) = Inr (wordBank1, midRound)"
  by code_simp

lemma run_reachable:
  "reachable pc w \<Longrightarrow> run pc evs w = Inr (w', fs) \<Longrightarrow> reachable pc w'"
proof (induction evs arbitrary: w fs)
  case Nil
  then show ?case by simp
next
  case (Cons e evs)
  obtain now ev where e: "e = (now, ev)" by (cases e)
  from Cons.prems(2) obtain wb1 r1 fs1 fs2 where
    s: "step pc now ev w = Inr (wb1, r1, fs1)" and r: "run pc evs (wb1, r1) = Inr (w', fs2)"
    by (auto simp: e split: sum.splits prod.splits)
  from reachable.stepped[OF Cons.prems(1) s] have "reachable pc (wb1, r1)" .
  from Cons.IH[OF this r] show ?case .
qed

lemma startOf_reachable:
  assumes "startOf evs = Inr (w, fs)"
  shows "reachable DefaultPoints w"
proof -
  from assms obtain r where
    n: "NewRoom (\<lambda>i. generateRandomInt) ''room_1'' ''A'' RoomTypePublic ''Doodle'' settings0 0 = Inr r"
    and r: "run DefaultPoints evs (wordBank0, r) = Inr (w, fs)"
    by (auto simp: startOf_def bind_err_def split: sum.splits)
  from run_reachable[OF reachable.created[OF n] r] show ?thesis .
qed

lemma midRound_reachable: "reachable DefaultPoints (wordBank1, midRound)"
proof -
  obtain w fs where s: "startOf threePlayerStart = Inr (w, fs)" and "w = (wordBank1, midRound)"
    using threePlayerStart_state by (cases "startOf threePlayerStart") auto
  with startOf_reachable[OF s] show ?thesis by simp
qed


subsection \<open>Who sees the word\<close>

text \<open>
  \<^verbatim>\<open>handleSendGuess\<close> broadcasts the sanitized guess to the whole room before it
  validates it, whatever the guess is.
\<close>

lemma chat_precedes_validation:
  assumes "handleSendGuess pc wb r c guess now = Inr (wb', r', fs)"
    and "r_State r = GameStatePlaying" and "r_Phase r = GamePhaseDrawing"
  shows "hd fs = (ToRoom (r_ID r) None,
                  Msg_chat_message \<lparr>cm_Message = SanitizeInput guess,
                                    cm_Username = u_Username (clientUser r c), cm_IsSystem = False\<rparr>)"
  using assms
  by (auto simp: handleSendGuess_def Let_def split: sum.splits if_splits prod.splits)

text \<open>
  The round handlers keep the secret in \<^verbatim>\<open>new_round\<close>: the frame with the word goes
  to the drawer alone, and the frame broadcast to the others has no word.
\<close>

lemma new_round_word_only_to_drawer:
  "HandleRoundEnd pc wb r now = Inr (wb', r', fs) \<Longrightarrow> list_all wordOnlyToDrawer fs"
  "HandleNewRound pc wb r now = Inr (wb', r', fs) \<Longrightarrow> list_all wordOnlyToDrawer fs"
proof (induction pc wb r now and pc wb r now arbitrary: wb' r' fs and wb' r' fs
       rule: HandleRoundEnd_HandleNewRound.induct)
  case (1 pc wb r now)
  from "1.prems" obtain r1 ended where re: "roundEnd pc r now = Inr (r1, ended)"
    by (auto simp: HandleRoundEnd.simps split: sum.splits)
  then have e: "wordOnlyToDrawer ended"
    by (auto simp: roundEnd_def bind_err_def Let_def wordOnlyToDrawer_def split: sum.splits option.splits)
  show ?case
  proof (cases "r_MaxRounds r1 \<le> r_CurrentRound r1")
    case True
    with "1.prems" re have "fs = ended # snd (HandleGameEnd r1 now)"
      by (auto simp: HandleRoundEnd.simps split: prod.splits)
    then show ?thesis using e by (simp add: HandleGameEnd_def Let_def wordOnlyToDrawer_def)
  next
    case False
    with "1.prems" re obtain wb2 fs2 where
      "HandleNewRound pc wb r1 now = Inr (wb2, r', fs2)" "fs = ended # fs2"
      by (auto simp: HandleRoundEnd.simps split: sum.splits)
    with "1.IH"[OF re refl False this(1)] e show ?thesis by simp
  qed
next
  case (2 pc wb r now)
  obtain word hint wb1 where g: "GetRandomWord wb (r_Difficulty r) = (word, hint, wb1)"
    by (cases "GetRandomWord wb (r_Difficulty r)") auto
  let ?r1 = "StartNewRound r word hint now"
  show ?case
  proof (cases "GetPlayer ?r1 (r_CurrentDrawer ?r1)")
    case None
    with "2.prems" g have "HandleRoundEnd pc wb1 ?r1 now = Inr (wb', r', fs)"
      by (simp add: HandleNewRound.simps)
    from "2.IH"[OF g[symmetric] refl None this] show ?thesis .
  next
    case (Some drawer)
    with "2.prems" g show ?thesis
      by (auto simp: HandleNewRound.simps Let_def wordOnlyToDrawer_def)
  qed
qed

text \<open>
  C1. In the running room \<open>midRound\<close> (drawer \<open>B\<close>, word \<open>cat\<close>) player \<open>C\<close> sends the
  guess \<open>cat\<close>. The first frame sent is the \<^verbatim>\<open>chat_message\<close> with the guess as its
  text, broadcast to the room with nobody excluded, so it reaches \<open>A\<close>, who is not the
  drawer, while the room is still playing and drawing the same word.
\<close>

theorem chat_relays_the_word:
  "map_sum id (\<lambda>(wb, r, fs). (r_State r, r_Phase r, r_CurrentDrawer r, r_CurrentWord r,
                               hd fs, recipients r (fst (hd fs))))
     afterGuess
   = Inr (GameStatePlaying, GamePhaseDrawing, ''B'', ''cat'',
          (ToRoom ''room_1'' None,
           Msg_chat_message \<lparr>cm_Message = ''cat'', cm_Username = ''Carol'', cm_IsSystem = False\<rparr>),
          [''A'', ''B'', ''C''])"
  by code_simp

subsection \<open>Points added and points announced\<close>

text \<open>
  C4. From \<open>midRound\<close>, \<open>C\<close> guesses the word at 15s and \<open>A\<close> at 25s, which ends the
  round and, this being the last round, the game. The scores grow by 236 for \<open>C\<close>, 182
  for \<open>A\<close> and 50 for the drawer \<open>B\<close>, and the \<^verbatim>\<open>points_awarded\<close> frames announce 236
  and 182; but \<^verbatim>\<open>round_ended\<close> lists 203 points for \<open>C\<close>: \<^verbatim>\<open>HandleRoundEnd\<close> computes
  the guessers' points again, with the final number of guessers where
  \<^verbatim>\<open>ValidateGuess\<close> used the number at the time of the guess.
\<close>

theorem round_ended_lists_other_points:
  "scores midRound = [(''A'', 0), (''B'', 0), (''C'', 0)]
   \<and> map_sum id (\<lambda>((wb, r), fs). (scores r, pointsAwarded fs, roundEndedPoints fs))
        (run DefaultPoints [(15 * second, GuessMsg carol ''cat''), (25 * second, GuessMsg alice '' CAT '')]
           (wordBank1, midRound))
      = Inr ([(''A'', 182), (''B'', 50), (''C'', 236)],
             [(''C'', 236), (''A'', 182)],
             [(''B'', 50), (''C'', 203), (''A'', 182)])"
  by code_simp

subsection \<open>A second correct guess\<close>

lemma GetPlayer_AddGuess [simp]: "GetPlayer (snd (AddGuess r k now)) k' = GetPlayer r k'"
  by (simp add: GetPlayer_def)




subsection \<open>Guessed players\<close>



subsection \<open>Joining a room\<close>

text \<open>
  C7, as amended. \<^verbatim>\<open>AddPlayer\<close> succeeds exactly when the room is not full and the
  user is not yet a player. A rejected join leaves the room unchanged, and
  \<^verbatim>\<open>handleJoinRoom\<close> then answers the client with \<open>JOIN_FAILED\<close> and leaves the registry
  unchanged; an accepted join appends the user to the players and to the end of the
  player order. In every reachable state of a room created with \<open>max_players \<ge> 0\<close> the
  number of players is at most \<open>max_players\<close>.
\<close>

theorem add_player_guard:
  "(fst (AddPlayer r u now) \<longleftrightarrow> \<not> IsFull r \<and> GetPlayer r (u_ID u) = None)
   \<and> (\<not> fst (AddPlayer r u now) \<longrightarrow> snd (AddPlayer r u now) = r)
   \<and> (fst (AddPlayer r u now) \<longrightarrow>
        r_Players (snd (AddPlayer r u now)) = r_Players r @ [(u_ID u, u)]
        \<and> r_PlayerOrder (snd (AddPlayer r u now)) = r_PlayerOrder r @ [u_ID u])
   \<and> (ValidateRoomCode (NormalizeRoomCode code) \<and> GetRoomByCode rm (NormalizeRoomCode code) = Some a
        \<and> a < length (rm_store rm) \<and> GetRoom rm (r_ID (rm_store rm ! a)) = Some a
        \<and> \<not> fst (AddPlayer (rm_store rm ! a) u now)
      \<longrightarrow> handleJoinRoom rm u code now
            = (rm, [errorFrame (u_ID u) ''Failed to join room'' ''JOIN_FAILED'']))
   \<and> (reachable pc (wb, r) \<and> 0 \<le> r_MaxPlayers r \<longrightarrow> int (length (r_Players r)) \<le> r_MaxPlayers r)"
proof -
  have 1: "fst (AddPlayer r u now) \<longleftrightarrow> \<not> IsFull r \<and> GetPlayer r (u_ID u) = None"
    by (auto simp: AddPlayer_def IsFull_def GetPlayer_def)
  have 2: "\<not> fst (AddPlayer r u now) \<longrightarrow> snd (AddPlayer r u now) = r"
    by (auto simp: AddPlayer_def)
  have 3: "fst (AddPlayer r u now) \<longrightarrow>
        r_Players (snd (AddPlayer r u now)) = r_Players r @ [(u_ID u, u)]
        \<and> r_PlayerOrder (snd (AddPlayer r u now)) = r_PlayerOrder r @ [u_ID u]"
    by (auto simp: AddPlayer_def update_fresh)
  have 4: "handleJoinRoom rm u code now
            = (rm, [errorFrame (u_ID u) ''Failed to join room'' ''JOIN_FAILED''])"
    if "ValidateRoomCode (NormalizeRoomCode code)" "GetRoomByCode rm (NormalizeRoomCode code) = Some a"
       "a < length (rm_store rm)" "GetRoom rm (r_ID (rm_store rm ! a)) = Some a"
       "\<not> fst (AddPlayer (rm_store rm ! a) u now)"
  proof -
    from that(5) have "AddPlayer (rm_store rm ! a) u now = (False, rm_store rm ! a)"
      by (auto simp: AddPlayer_def split: if_splits)
    then have "JoinRoom rm (r_ID (rm_store rm ! a)) (u_ID u) u now = (False, rm)"
      using that(3,4) by (simp add: JoinRoom_def GetRoom_def)
    with that(1,2) show ?thesis by (simp add: handleJoinRoom_def Let_def)
  qed
  have 5: "reachable pc (wb, r) \<and> 0 \<le> r_MaxPlayers r \<longrightarrow> int (length (r_Players r)) \<le> r_MaxPlayers r"
    using reachable_inv[of pc "(wb, r)"] by simp
  from 1 2 3 4 5 show ?thesis by blast
qed

theorem add_player_guard_witness:
  "fst (AddPlayer midRound dave (20 * second))
   \<and> r_PlayerOrder (snd (AddPlayer midRound dave (20 * second))) = [''A'', ''B'', ''C'', ''D'']
   \<and> \<not> fst (AddPlayer midRound carol (20 * second))
   \<and> snd (AddPlayer midRound carol (20 * second)) = midRound
   \<and> handleJoinRoom registry1 carol '' aaaaaa '' (20 * second)
       = (registry1, [errorFrame ''C'' ''Failed to join room'' ''JOIN_FAILED''])
   \<and> reachable DefaultPoints (wordBank1, midRound) \<and> 0 \<le> r_MaxPlayers midRound
   \<and> int (length (r_Players midRound)) \<le> r_MaxPlayers midRound"
proof -
  have d: "fst (AddPlayer midRound dave (20 * second))" by code_simp
  have c: "\<not> fst (AddPlayer midRound carol (20 * second))" by code_simp
  have o: "r_PlayerOrder midRound = [''A'', ''B'', ''C'']" "u_ID dave = ''D''" "u_ID carol = ''C''"
    "0 \<le> r_MaxPlayers midRound"
    by code_simp+
  have v: "ValidateRoomCode (NormalizeRoomCode '' aaaaaa '')"
    "NormalizeRoomCode '' aaaaaa '' = ''AAAAAA''"
    by code_simp+
  have g: "GetRoomByCode registry1 ''AAAAAA'' = Some 0" "0 < length (rm_store registry1)"
    "GetRoom registry1 (r_ID (rm_store registry1 ! 0)) = Some 0" "rm_store registry1 ! 0 = midRound"
    by (simp_all add: registry1_def GetRoomByCode_def GetRoom_def midRound_def)
  from add_player_guard[of midRound dave "20 * second" "'' aaaaaa ''" registry1 0 DefaultPoints wordBank1]
    d o have 1: "r_PlayerOrder (snd (AddPlayer midRound dave (20 * second))) = [''A'', ''B'', ''C'', ''D'']"
    by simp
  from add_player_guard[of midRound carol "20 * second" "'' aaaaaa ''" registry1 0 DefaultPoints wordBank1]
    c o v g midRound_reachable
  have 2: "snd (AddPlayer midRound carol (20 * second)) = midRound"
    "handleJoinRoom registry1 carol '' aaaaaa '' (20 * second)
       = (registry1, [errorFrame ''C'' ''Failed to join room'' ''JOIN_FAILED''])"
    "int (length (r_Players midRound)) \<le> r_MaxPlayers midRound"
    by simp_all
  from d c 1 2 o midRound_reachable show ?thesis by simp
qed

text \<open>
  The bound on the number of players needs \<open>max_players \<ge> 0\<close>: \<^verbatim>\<open>create_room\<close> takes
  \<open>max_players\<close> from the message as it is, and a room created with \<open>-1\<close> has no
  players, which is more than \<open>-1\<close>.
\<close>

theorem negative_capacity_counterexample:
  "NewRoom (\<lambda>i. generateRandomInt) ''room_1'' ''A'' RoomTypePublic ''Doodle''
      (settings0\<lparr>crd_MaxPlayers := - 1\<rparr>) 0 = Inr negativeRoom
   \<and> reachable DefaultPoints (wordBank0, negativeRoom)
   \<and> \<not> int (length (r_Players negativeRoom)) \<le> r_MaxPlayers negativeRoom"
proof -
  have n: "NewRoom (\<lambda>i. generateRandomInt) ''room_1'' ''A'' RoomTypePublic ''Doodle''
      (settings0\<lparr>crd_MaxPlayers := - 1\<rparr>) 0 = Inr negativeRoom"
    by code_simp
  from reachable.created[OF n] show ?thesis using n by (simp add: negativeRoom_def)
qed

subsection \<open>Scoring: how far the double-precision bonuses are from the exact ones\<close>

text \<open>
  Rounding to 53 significant bits changes a number by at most the fraction \<open>2\<^sup>-\<^sup>5\<^sup>3\<close> of
  itself, and leaves a number with at most 53 significant bits as it is.
\<close>

lemma pow2_powi: "pow2 k = 2 powi k"
  by (simp add: pow2_def power_int_def inverse_eq_divide power_one_over)

lemma pow2_pos [simp]: "0 < pow2 k"
  by (simp add: pow2_powi)

lemma pow2_add: "pow2 (a + b) = pow2 a * pow2 b"
  by (simp add: pow2_powi power_int_add)

lemma pow2_nat: "0 \<le> k \<Longrightarrow> pow2 k = 2 ^ nat k"
  by (simp add: pow2_def)

lemma pow2_mono: "a \<le> b \<Longrightarrow> pow2 a \<le> pow2 b"
  by (simp add: pow2_powi power_int_increasing)

lemma pow2_less_cancel: "pow2 a < pow2 b \<Longrightarrow> a < b"
  using pow2_mono[of b a] by (cases "a < b") auto

lemma ilog2_bounds:
  assumes "0 < x"
  shows "pow2 (ilog2 x) \<le> x" and "x < pow2 (ilog2 x + 1)"
proof -
  have "pow2 (ilog2 x) \<le> x \<and> x < pow2 (ilog2 x + 1)"
  proof (cases "1 \<le> x")
    case True
    define n where "n = \<lfloor>x\<rfloor>"
    have n1: "1 \<le> n" using True by (simp add: n_def)
    then have b1: "1 \<le> bitlen n" by (auto simp: bitlen_alt_def)
    from bitlen_bounds[of n] n1 have bb: "2 ^ nat (bitlen n - 1) \<le> n" "n < 2 ^ nat (bitlen n)"
      by auto
    have il: "ilog2 x = bitlen n - 1" using True by (simp add: ilog2_def n_def)
    have "pow2 (bitlen n - 1) = of_int (2 ^ nat (bitlen n - 1))"
      using b1 by (simp add: pow2_nat)
    also have "\<dots> \<le> of_int n" using bb(1) by (simp only: of_int_le_iff)
    also have "\<dots> \<le> x" by (simp add: n_def)
    finally have lo: "pow2 (ilog2 x) \<le> x" by (simp add: il)
    have "n + 1 \<le> 2 ^ nat (bitlen n)" using bb(2) by simp
    then have "(of_int (n + 1) :: rat) \<le> of_int (2 ^ nat (bitlen n))" by (simp only: of_int_le_iff)
    moreover have "x < of_int (n + 1)" unfolding n_def by linarith
    ultimately have "x < of_int (2 ^ nat (bitlen n))" by linarith
    also have "\<dots> = pow2 (bitlen n)" using b1 by (simp add: pow2_nat)
    finally have "x < pow2 (ilog2 x + 1)" by (simp add: il)
    with lo show ?thesis by simp
  next
    case False
    then have x1: "x < 1" by simp
    define c where "c = \<lceil>1 / x\<rceil>"
    define m where "m = c - 1"
    have "1 < 1 / x" using assms x1 by simp
    then have "1 < c" unfolding c_def by (simp add: less_ceiling_iff)
    then have m1: "1 \<le> m" by (simp add: m_def)
    then have b1: "1 \<le> bitlen m" by (auto simp: bitlen_alt_def)
    from bitlen_bounds[of m] m1 have bb: "2 ^ nat (bitlen m - 1) \<le> m" "m < 2 ^ nat (bitlen m)"
      by auto
    have il: "ilog2 x = - bitlen m" using False by (simp add: ilog2_def m_def c_def)
    have cx: "1 / x \<le> of_int c" by (simp add: c_def)
    have mx: "of_int m < 1 / x" unfolding m_def c_def by (simp add: ceiling_correct)
    have "c \<le> 2 ^ nat (bitlen m)" using bb(2) by (simp add: m_def)
    then have "(of_int c :: rat) \<le> of_int (2 ^ nat (bitlen m))" by (simp only: of_int_le_iff)
    also have "\<dots> = 2 ^ nat (bitlen m)" by simp
    finally have "1 / x \<le> 2 ^ nat (bitlen m)" using cx by (rule order_trans[rotated])
    then have "1 \<le> 2 ^ nat (bitlen m) * x" using assms by (simp add: field_simps)
    then have "1 / 2 ^ nat (bitlen m) \<le> x" by (simp add: field_simps)
    moreover have "pow2 (- bitlen m) = 1 / 2 ^ nat (bitlen m)"
      using b1 by (simp add: pow2_def)
    ultimately have lo: "pow2 (ilog2 x) \<le> x" by (simp add: il)
    have "(2 :: rat) ^ nat (bitlen m - 1) = of_int (2 ^ nat (bitlen m - 1))" by simp
    also have "\<dots> \<le> of_int m" using bb(1) by (simp only: of_int_le_iff)
    finally have "2 ^ nat (bitlen m - 1) < 1 / x" using mx by (rule le_less_trans)
    then have "2 ^ nat (bitlen m - 1) * x < 1" using assms by (simp add: field_simps)
    then have "x < 1 / 2 ^ nat (bitlen m - 1)" by (simp add: field_simps)
    moreover have "pow2 (- bitlen m + 1) = 1 / 2 ^ nat (bitlen m - 1)"
    proof (cases "bitlen m = 1")
      case True
      then show ?thesis by (simp add: pow2_def)
    next
      case False
      with b1 have "- bitlen m + 1 < 0" by simp
      then show ?thesis by (simp add: pow2_def algebra_simps)
    qed
    ultimately have "x < pow2 (ilog2 x + 1)" by (simp add: il)
    with lo show ?thesis by simp
  qed
  then show "pow2 (ilog2 x) \<le> x" and "x < pow2 (ilog2 x + 1)" by simp_all
qed

lemma round_half_even_error: "\<bar>of_int (round_half_even y) - y\<bar> \<le> 1 / 2"
proof -
  have "of_int \<lfloor>y\<rfloor> \<le> y" "y < of_int \<lfloor>y\<rfloor> + 1" by linarith+
  then show ?thesis by (auto simp: round_half_even_def Let_def abs_le_iff)
qed

lemma round_half_even_of_int [simp]: "round_half_even (of_int n) = n"
  by (simp add: round_half_even_def)

lemma round_half_even_nonneg: "0 \<le> y \<Longrightarrow> 0 \<le> round_half_even y"
  by (auto simp: round_half_even_def Let_def intro: add_nonneg_nonneg)

lemma round64_error: "\<bar>round64 x - x\<bar> \<le> \<bar>x\<bar> / 2 ^ 53"
proof (cases "x = 0")
  case True
  then show ?thesis by (simp add: round64_def)
next
  case False
  define e where "e = ilog2 \<bar>x\<bar>"
  define u where "u = pow2 (e - 52)"
  have u0: "0 < u" by (simp add: u_def)
  have r: "round64 x = of_int (round_half_even (x / u)) * u"
    using False by (simp add: round64_def Let_def e_def u_def)
  have "round64 x - x = (of_int (round_half_even (x / u)) - x / u) * u"
    using u0 by (simp add: r field_simps)
  then have "\<bar>round64 x - x\<bar> = \<bar>of_int (round_half_even (x / u)) - x / u\<bar> * u"
    using u0 by (simp add: abs_mult)
  also have "\<dots> \<le> (1 / 2) * u"
    using round_half_even_error[of "x / u"] u0 by (intro mult_right_mono) auto
  also have "(1 / 2) * u = pow2 e / 2 ^ 53"
  proof -
    have "pow2 e = pow2 (e - 52) * pow2 52" using pow2_add[of "e - 52" 52] by simp
    then show ?thesis by (simp add: u_def pow2_def)
  qed
  also have "\<dots> \<le> \<bar>x\<bar> / 2 ^ 53"
    using ilog2_bounds(1)[of "\<bar>x\<bar>"] False by (simp add: e_def divide_right_mono)
  finally show ?thesis .
qed

lemma round64_nonneg: "0 \<le> x \<Longrightarrow> 0 \<le> round64 x"
  by (auto simp: round64_def Let_def less_imp_le
           intro!: mult_nonneg_nonneg round_half_even_nonneg divide_nonneg_pos)


lemma round64_exact:
  assumes "\<bar>m\<bar> < 2 ^ 53"
  shows "round64 (of_int m * pow2 j) = of_int m * pow2 j"
proof (cases "m = 0")
  case True
  then show ?thesis by (simp add: round64_def)
next
  case False
  define x where "x = (of_int m :: rat) * pow2 j"
  define e where "e = ilog2 \<bar>x\<bar>"
  define k where "k = j - (e - 52)"
  have x0: "x \<noteq> 0" using False by (simp add: x_def less_imp_neq[OF pow2_pos, symmetric])
  have "(of_int \<bar>m\<bar> :: rat) < of_int (2 ^ 53)" using assms by (simp only: of_int_less_iff)
  then have "\<bar>of_int m :: rat\<bar> < 2 ^ 53" by simp
  then have "\<bar>of_int m :: rat\<bar> * pow2 j < 2 ^ 53 * pow2 j"
    by (rule mult_strict_right_mono) simp
  then have "\<bar>x\<bar> < 2 ^ 53 * pow2 j"
    by (simp add: x_def abs_mult less_imp_le)
  also have "\<dots> = pow2 (53 + j)" using pow2_add[of 53 j] pow2_nat[of 53] by simp
  finally have "pow2 e < pow2 (53 + j)"
    using ilog2_bounds(1)[of "\<bar>x\<bar>"] x0 by (simp add: e_def)
  then have "e < 53 + j" by (rule pow2_less_cancel)
  then have k0: "0 \<le> k" by (simp add: k_def)
  have "pow2 j = pow2 k * pow2 (e - 52)" using pow2_add[of k "e - 52"] by (simp add: k_def)
  then have "x / pow2 (e - 52) = of_int m * pow2 k"
    by (simp add: x_def less_imp_neq[OF pow2_pos, symmetric])
  also have "\<dots> = of_int (m * 2 ^ nat k)" using k0 by (simp add: pow2_nat)
  finally have q: "x / pow2 (e - 52) = of_int (m * 2 ^ nat k)" .
  have "round64 x = of_int (round_half_even (x / pow2 (e - 52))) * pow2 (e - 52)"
    using x0 by (simp add: round64_def Let_def e_def)
  also have "\<dots> = of_int (m * 2 ^ nat k) * pow2 (e - 52)" by (simp only: q round_half_even_of_int)
  also have "\<dots> = x / pow2 (e - 52) * pow2 (e - 52)" by (simp only: q)
  also have "\<dots> = x" by (simp add: less_imp_neq[OF pow2_pos, symmetric])
  finally show ?thesis by (simp add: x_def)
qed

lemma float64_of_int_exact: "\<bar>i\<bar> < 2 ^ 53 \<Longrightarrow> float64_of_int i = of_int i"
  using round64_exact[of i 0] by (simp add: float64_of_int_def pow2_def)

lemma round64_one [simp]: "round64 1 = 1"
  using round64_exact[of 1 0] by (simp add: pow2_def)

text \<open>The exact value of a bonus, and how far the double-precision value is from it.\<close>

lemma bonus_f64_close:
  assumes "0 \<le> B" and "0 \<le> a" and "a \<le> b" and "0 < b" and "b < 2 ^ 50" and "B * b < 2 ^ 50"
  shows "\<exists>p. bonus_f64 B a b = Some p \<and> 0 \<le> p
           \<and> of_int \<lfloor>of_int B * (1 - of_int a / of_int b :: rat)\<rfloor> - 1 < p
           \<and> p < of_int \<lfloor>of_int B * (1 - of_int a / of_int b :: rat)\<rfloor> + 1"
proof -
  define \<delta> :: rat where "\<delta> = 1 / 2 ^ 53"
  define A :: rat where "A = of_int a"
  define Bb :: rat where "Bb = of_int b"
  define Bf :: rat where "Bf = of_int B"
  define q0 where "q0 = A / Bb"
  define q where "q = round64 q0"
  define s where "s = 1 - q"
  define d where "d = round64 s"
  define p where "p = round64 (Bf * d)"
  define v where "v = Bf * (1 - q0)"
  define k where "k = \<lfloor>v\<rfloor>"
  have d0: "0 < \<delta>" and d1: "\<delta> \<le> 1" by (simp_all add: \<delta>_def)
  have Bb1: "1 \<le> Bb" using assms(4) by (simp add: Bb_def)
  have Bb50: "Bb < 2 ^ 50"
  proof -
    have "(of_int b :: rat) < of_int (2 ^ 50)" using assms(5) by (simp only: of_int_less_iff)
    then show ?thesis by (simp add: Bb_def)
  qed
  have A0: "0 \<le> A" using assms(2) by (simp add: A_def)
  have AB: "A \<le> Bb" using assms(3) by (simp add: A_def Bb_def)
  have Bf0: "0 \<le> Bf" using assms(1) by (simp add: Bf_def)
  have BfBb: "Bf * Bb < 2 ^ 50"
  proof -
    have "(of_int (B * b) :: rat) < of_int (2 ^ 50)" using assms(6) by (simp only: of_int_less_iff)
    then show ?thesis by (simp add: Bf_def Bb_def)
  qed
  have q00: "0 \<le> q0" "q0 \<le> 1" using A0 AB Bb1 by (simp_all add: q0_def)
  \<comment> \<open>the integers convert exactly\<close>
  have ia: "float64_of_int a = A" using assms(2,3,5) by (simp add: float64_of_int_exact A_def)
  have ib: "float64_of_int b = Bb" using assms(4,5) by (simp add: float64_of_int_exact Bb_def)
  have "B \<le> B * b" using assms(1,4) by (simp add: mult_le_cancel_left1)
  then have iB: "float64_of_int B = Bf" using assms(1,6) by (simp add: float64_of_int_exact Bf_def)
  have val: "bonus_f64 B a b = Some p"
    using Bb1 by (simp add: bonus_f64_def fdiv_def fmul_def fsub_def ia ib iB p_def d_def s_def q_def q0_def)
  \<comment> \<open>the quotient\<close>
  have eq: "\<bar>q - q0\<bar> \<le> \<delta>"
  proof -
    have "\<bar>q - q0\<bar> \<le> \<bar>q0\<bar> / 2 ^ 53" unfolding q_def by (rule round64_error)
    also have "\<dots> \<le> 1 / 2 ^ 53" using q00 by (simp add: divide_right_mono)
    finally show ?thesis by (simp add: \<delta>_def)
  qed
  have qn: "0 \<le> q" unfolding q_def using q00(1) by (rule round64_nonneg)
  have q1: "q \<le> 1"
  proof (cases "a = b")
    case True
    then have "q0 = 1" using assms(4) by (simp add: q0_def A_def Bb_def)
    then show ?thesis by (simp add: q_def)
  next
    case False
    with assms(3) have "a + 1 \<le> b" by simp
    then have "(of_int (a + 1) :: rat) \<le> of_int b" by (simp only: of_int_le_iff)
    then have "A + 1 \<le> Bb" by (simp add: A_def Bb_def)
    then have "q0 \<le> 1 - 1 / Bb" using Bb1 by (simp add: q0_def field_simps)
    moreover have "\<delta> \<le> 1 / Bb"
    proof -
      have "Bb \<le> 2 ^ 53" using Bb50 by simp
      then have "1 / 2 ^ 53 \<le> 1 / Bb" using Bb1 by (intro divide_left_mono) simp_all
      then show ?thesis by (simp add: \<delta>_def)
    qed
    ultimately show ?thesis using eq[unfolded abs_diff_le_iff] by linarith
  qed
  \<comment> \<open>the difference\<close>
  have s01: "0 \<le> s" "s \<le> 1" using qn q1 by (simp_all add: s_def)
  have ed: "\<bar>d - s\<bar> \<le> \<delta>"
  proof -
    have "\<bar>d - s\<bar> \<le> \<bar>s\<bar> / 2 ^ 53" unfolding d_def by (rule round64_error)
    also have "\<dots> \<le> 1 / 2 ^ 53" using s01 by (simp add: divide_right_mono)
    finally show ?thesis by (simp add: \<delta>_def)
  qed
  have dn: "0 \<le> d" unfolding d_def using s01(1) by (rule round64_nonneg)
  have d2: "d \<le> 2" using ed[unfolded abs_diff_le_iff] s01 d1 by linarith
  have dq: "\<bar>d - (1 - q0)\<bar> \<le> 2 * \<delta>"
    unfolding abs_diff_le_iff using ed[unfolded abs_diff_le_iff] eq[unfolded abs_diff_le_iff]
    by (simp add: s_def)
  \<comment> \<open>the product\<close>
  have pn: "0 \<le> p" unfolding p_def using Bf0 dn by (intro round64_nonneg mult_nonneg_nonneg)
  have ep: "\<bar>p - Bf * d\<bar> \<le> 2 * Bf * \<delta>"
  proof -
    have "\<bar>p - Bf * d\<bar> \<le> \<bar>Bf * d\<bar> / 2 ^ 53" unfolding p_def by (rule round64_error)
    also have "\<dots> = Bf * d * \<delta>" using Bf0 dn by (simp add: \<delta>_def abs_mult)
    also have "\<dots> \<le> Bf * 2 * \<delta>" using d2 Bf0 d0 by (intro mult_right_mono mult_left_mono) simp_all
    finally show ?thesis by (simp add: mult.commute)
  qed
  have "\<bar>Bf * d - v\<bar> = Bf * \<bar>d - (1 - q0)\<bar>"
    using Bf0 by (simp add: v_def right_diff_distrib[symmetric] abs_mult)
  also have "\<dots> \<le> Bf * (2 * \<delta>)" using dq Bf0 by (rule mult_left_mono)
  finally have ev: "\<bar>Bf * d - v\<bar> \<le> 2 * Bf * \<delta>" by simp
  have pv: "\<bar>p - v\<bar> \<le> 4 * Bf * \<delta>"
    unfolding abs_diff_le_iff using ep[unfolded abs_diff_le_iff] ev[unfolded abs_diff_le_iff]
    by linarith
  have small: "4 * Bf * \<delta> < 1 / (2 * Bb)"
  proof -
    have "4 * Bf * \<delta> * (2 * Bb) = (Bf * Bb) / 2 ^ 50" by (simp add: \<delta>_def)
    also have "\<dots> < 1" using BfBb by simp
    finally show ?thesis using Bb1 by (simp add: field_simps)
  qed
  \<comment> \<open>the exact value is a multiple of 1 / b\<close>
  have vb: "v * Bb = of_int (B * (b - a))"
    using Bb1 by (simp add: v_def q0_def Bf_def Bb_def A_def field_simps)
  have "v < of_int (k + 1)" unfolding k_def by linarith
  then have lt: "v * Bb < of_int (k + 1) * Bb" using Bb1 by (simp add: mult_less_cancel_right)
  have kb: "of_int (k + 1) * Bb = (of_int ((k + 1) * b) :: rat)" by (simp add: Bb_def)
  from lt[unfolded vb kb] have "B * (b - a) < (k + 1) * b" by (simp only: of_int_less_iff)
  then have "B * (b - a) + 1 \<le> (k + 1) * b" by simp
  then have le: "(of_int (B * (b - a) + 1) :: rat) \<le> of_int ((k + 1) * b)" by (simp only: of_int_le_iff)
  have "(of_int (B * (b - a) + 1) :: rat) = v * Bb + 1" by (simp only: vb of_int_add of_int_1)
  with le have "v * Bb + 1 \<le> of_int (k + 1) * Bb" by (simp only: kb)
  then have vhi: "v \<le> of_int k + 1 - 1 / Bb" using Bb1 by (simp add: field_simps)
  have vlo: "of_int k \<le> v" by (simp add: k_def)
  have half: "1 / (2 * Bb) \<le> 1 / 2" "1 / (2 * Bb) < 1 / Bb" using Bb1 by (simp_all add: field_simps)
  have "p < of_int k + 1" using pv[unfolded abs_diff_le_iff] small vhi half by linarith
  moreover have "of_int k - 1 < p" using pv[unfolded abs_diff_le_iff] small vlo half by linarith
  ultimately show ?thesis using val pn
    by (simp add: k_def v_def q0_def Bf_def A_def Bb_def)
qed

lemma trunc_nonneg: "0 \<le> v \<Longrightarrow> trunc v = \<lfloor>v\<rfloor>"
  by (simp add: trunc_def)

lemma bonus_int:
  assumes "0 \<le> B" and "0 \<le> a" and "a \<le> b" and "0 < b" and "b < 2 ^ 50" and "B * b < 2 ^ 50"
  shows "\<exists>n. int_of_float64 (bonus_f64 B a b) = Inr n \<and> 0 \<le> n \<and> n \<le> B
           \<and> (n = spec_bonus B a b \<or> n = spec_bonus B a b - 1)"
proof -
  from bonus_f64_close[OF assms] obtain p where
    p: "bonus_f64 B a b = Some p" "0 \<le> p"
       "of_int (spec_bonus B a b) - 1 < p" "p < of_int (spec_bonus B a b) + 1"
    by (auto simp: spec_bonus_def)
  have "of_int (spec_bonus B a b - 1) \<le> p" using p(3) by simp
  then have lo: "spec_bonus B a b - 1 \<le> \<lfloor>p\<rfloor>" by (simp only: le_floor_iff)
  have "p < of_int (spec_bonus B a b + 1)" using p(4) by simp
  then have hi: "\<lfloor>p\<rfloor> < spec_bonus B a b + 1" by (simp only: floor_less_iff)
  have "of_int B * (1 - of_int a / of_int b :: rat) \<le> of_int B * 1"
    using assms(1-4) by (intro mult_left_mono) simp_all
  then have "spec_bonus B a b \<le> \<lfloor>of_int B :: rat\<rfloor>"
    unfolding spec_bonus_def by (intro floor_mono) simp
  then have kB: "spec_bonus B a b \<le> B" by simp
  have "B \<le> B * b" using assms(1,4) by (simp add: mult_le_cancel_left1)
  with assms(6) have B50: "B < 2 ^ 50" by simp
  have n0: "0 \<le> \<lfloor>p\<rfloor>" using p(2) by simp
  have big: "(2 :: int) ^ 50 < 2 ^ 63" by simp
  have "\<lfloor>p\<rfloor> < 2 ^ 63" using hi kB B50 big by linarith
  then have "int_of_float64 (bonus_f64 B a b) = Inr \<lfloor>p\<rfloor>"
    using p(1,2) n0 by (simp add: int_of_float64_def trunc_nonneg)
  with lo hi kB n0 show ?thesis by auto
qed

lemma scaled_exact:
  assumes "0 \<le> S" and "S < 2 ^ 50" and "c = 5 \<and> j = 2 \<or> c = 3 \<and> j = 1"
  shows "int_of_float64 (Some (fmul (float64_of_int S) (of_int c / 2 ^ j))) = Inr \<lfloor>of_int c / 2 ^ j * (of_int S :: rat)\<rfloor>"
proof -
  have S53: "\<bar>S\<bar> < 2 ^ 53" using assms(1,2) by simp
  have cS: "\<bar>c * S\<bar> < 2 ^ 53" "0 \<le> c * S" "c * S < 2 ^ 60" using assms by auto
  have "pow2 (- int j) = 1 / 2 ^ j" using assms(3) by (auto simp: pow2_def)
  then have "of_int S * (of_int c / 2 ^ j) = (of_int (c * S) :: rat) * pow2 (- int j)"
    by simp
  then have "fmul (float64_of_int S) (of_int c / 2 ^ j) = of_int (c * S) * pow2 (- int j)"
    using round64_exact[OF cS(1), of "- int j"] by (simp add: fmul_def float64_of_int_exact[OF S53])
  also have "\<dots> = of_int c / 2 ^ j * (of_int S :: rat)"
    using \<open>pow2 (- int j) = 1 / 2 ^ j\<close> by simp
  finally have f: "fmul (float64_of_int S) (of_int c / 2 ^ j) = of_int c / 2 ^ j * (of_int S :: rat)" .
  have nn: "0 \<le> of_int c / 2 ^ j * (of_int S :: rat)" using assms by auto
  have "of_int c / 2 ^ j * (of_int S :: rat) \<le> of_int (c * S)"
    using assms by (auto simp: field_simps)
  then have "\<lfloor>of_int c / 2 ^ j * (of_int S :: rat)\<rfloor> \<le> c * S"
    by (metis floor_mono floor_of_int)
  moreover have "(2 :: int) ^ 60 < 2 ^ 63" by simp
  ultimately have "\<lfloor>of_int c / 2 ^ j * (of_int S :: rat)\<rfloor> < 2 ^ 63" using cS(3) by linarith
  moreover have "0 \<le> \<lfloor>of_int c / 2 ^ j * (of_int S :: rat)\<rfloor>" using nn by simp
  ultimately show ?thesis using nn by (simp add: int_of_float64_def f trunc_nonneg)
qed

lemma product_bound:
  assumes "0 \<le> B" and "B < 2 ^ 20" and "0 < b" and "b < 2 ^ 30"
  shows "B * b < 2 ^ 50" and "b < (2 :: int) ^ 50"
proof -
  have "B * b \<le> 2 ^ 20 * b" using assms(2,3) by (intro mult_right_mono) simp_all
  also have "\<dots> < 2 ^ 20 * 2 ^ 30" using assms(4) by (intro mult_strict_left_mono) simp_all
  finally show "B * b < 2 ^ 50" by simp
  show "b < (2 :: int) ^ 50" using assms(4) by simp
qed

lemma ValidateGuess_awards_calculated_points:
  assumes "ValidateGuess pc r userID guess now = Inr (res, r1)" and "g_Correct res"
  shows "CalculateGuesserPoints pc (int (length (r_GuessedPlayers r)) + 1)
           (int (length (r_GuessedPlayers r)) + 1) (seconds_of (now - r_RoundStartTime r))
           (r_RoundTime r) (int (length (r_Players r))) (r_Difficulty r) = Inr (g_Points res)"
  using assms
  by (auto simp: ValidateGuess_def bind_err_def Let_def incorrectGuess_def
           split: option.splits if_splits sum.splits)

text \<open>
  C3, as amended. For a configuration with bonuses below \<open>2\<^sup>2\<^sup>0\<close>, fewer than \<open>2\<^sup>3\<^sup>0\<close>
  players and round seconds, and a guess inside the round, the points are
  \<open>\<lfloor>multiplier \<times> (P_base + order_bonus + difficulty_bonus + time_bonus)\<rfloor>\<close>, where each bonus is
  either the floor that the formula gives or one less: the code evaluates
  \<open>B \<times> (1 - x / y)\<close> in double precision and discards the fraction, and the rounded
  product can fall just below an integer. With the default configuration, 2 players and
  easy difficulty, a first correct guess 10 seconds into a 60-second round gets
  order bonus 50, difficulty bonus 50, time bonus 20 and 220 points, as the formula says.
\<close>

theorem guesser_points_near_formula:
  assumes "0 \<le> BaseGuessPoints pc" and "BaseGuessPoints pc < 2 ^ 20"
    and "0 \<le> MaxOrderBonus pc" and "MaxOrderBonus pc < 2 ^ 20"
    and "0 \<le> MaxDifficultyBonus pc" and "MaxDifficultyBonus pc < 2 ^ 20"
    and "0 \<le> MaxTimeBonus pc" and "MaxTimeBonus pc < 2 ^ 20"
    and "1 \<le> guessOrder" and "guessOrder - 1 \<le> totalPlayers"
    and "0 \<le> totalGuessers" and "totalGuessers \<le> totalPlayers"
    and "0 < totalPlayers" and "totalPlayers < 2 ^ 30"
    and "0 \<le> guessTime" and "guessTime \<le> roundDuration"
    and "0 < roundDuration" and "roundDuration < 2 ^ 30"
  shows "(\<exists>ob db tb.
            (ob = spec_bonus (MaxOrderBonus pc) (guessOrder - 1) totalPlayers
               \<or> ob = spec_bonus (MaxOrderBonus pc) (guessOrder - 1) totalPlayers - 1)
          \<and> (db = spec_bonus (MaxDifficultyBonus pc) totalGuessers totalPlayers
               \<or> db = spec_bonus (MaxDifficultyBonus pc) totalGuessers totalPlayers - 1)
          \<and> (tb = spec_bonus (MaxTimeBonus pc) guessTime roundDuration
               \<or> tb = spec_bonus (MaxTimeBonus pc) guessTime roundDuration - 1)
          \<and> CalculateGuesserPoints pc guessOrder totalGuessers guessTime roundDuration totalPlayers difficulty
              = Inr \<lfloor>spec_multiplier difficulty * of_int (BaseGuessPoints pc + ob + db + tb)\<rfloor>)
         \<and> CalculateGuesserPoints DefaultPoints 1 1 10 60 2 ''easy'' = Inr 220
         \<and> spec_guesser_points DefaultPoints 1 1 10 60 2 ''easy'' = 220
         \<and> map_sum id (\<lambda>(res, r). (g_Correct res, g_OrderBonus res, g_Bonus res, g_TimeBonus res, g_Points res))
              (ValidateGuess DefaultPoints twoPlayerRound ''B'' ''CAT'' (15 * second))
            = Inr (True, 50, 50, 20, 220)"
proof -
  from bonus_int[OF assms(3) _ assms(10) assms(13) product_bound(2,1)[OF assms(3,4,13,14)]] assms(9)
  obtain ob where ob: "int_of_float64 (bonus_f64 (MaxOrderBonus pc) (guessOrder - 1) totalPlayers) = Inr ob"
    "0 \<le> ob" "ob \<le> MaxOrderBonus pc"
    "ob = spec_bonus (MaxOrderBonus pc) (guessOrder - 1) totalPlayers
       \<or> ob = spec_bonus (MaxOrderBonus pc) (guessOrder - 1) totalPlayers - 1"
    by auto
  from bonus_int[OF assms(5,11,12,13) product_bound(2,1)[OF assms(5,6,13,14)]]
  obtain db where db: "int_of_float64 (bonus_f64 (MaxDifficultyBonus pc) totalGuessers totalPlayers) = Inr db"
    "0 \<le> db" "db \<le> MaxDifficultyBonus pc"
    "db = spec_bonus (MaxDifficultyBonus pc) totalGuessers totalPlayers
       \<or> db = spec_bonus (MaxDifficultyBonus pc) totalGuessers totalPlayers - 1"
    by auto
  from bonus_int[OF assms(7,15,16,17) product_bound(2,1)[OF assms(7,8,17,18)]]
  obtain tb where tb: "int_of_float64 (bonus_f64 (MaxTimeBonus pc) guessTime roundDuration) = Inr tb"
    "0 \<le> tb" "tb \<le> MaxTimeBonus pc"
    "tb = spec_bonus (MaxTimeBonus pc) guessTime roundDuration
       \<or> tb = spec_bonus (MaxTimeBonus pc) guessTime roundDuration - 1"
    by auto
  define S where "S = BaseGuessPoints pc + ob + db + tb"
  have S0: "0 \<le> S" using assms(1) ob(2) db(2) tb(2) by (simp add: S_def)
  have "S < 4 * 2 ^ 20" using assms(2,4,6,8) ob(3) db(3) tb(3) by (simp add: S_def)
  then have S50: "S < 2 ^ 50" by simp
  have calc: "CalculateGuesserPoints pc guessOrder totalGuessers guessTime roundDuration totalPlayers difficulty
              = Inr \<lfloor>spec_multiplier difficulty * of_int S\<rfloor>"
  proof -
    have m: "int_of_float64 (Some (fmul (float64_of_int S) (5 / 4))) = Inr \<lfloor>5 / 4 * (of_int S :: rat)\<rfloor>"
      using scaled_exact[OF S0 S50, of 5 2] by simp
    have h: "int_of_float64 (Some (fmul (float64_of_int S) (3 / 2))) = Inr \<lfloor>3 / 2 * (of_int S :: rat)\<rfloor>"
      using scaled_exact[OF S0 S50, of 3 1] by simp
    show ?thesis
      using m h
      by (simp add: CalculateGuesserPoints_def bind_err_def ob(1) db(1) tb(1) Let_def
                    spec_multiplier_def S_def[symmetric])
  qed
  have e1: "CalculateGuesserPoints DefaultPoints 1 1 10 60 2 ''easy'' = Inr 220" by code_simp
  have e2: "spec_guesser_points DefaultPoints 1 1 10 60 2 ''easy'' = 220" by code_simp
  have e3: "map_sum id (\<lambda>(res, r). (g_Correct res, g_OrderBonus res, g_Bonus res, g_TimeBonus res, g_Points res))
              (ValidateGuess DefaultPoints twoPlayerRound ''B'' ''CAT'' (15 * second))
            = Inr (True, 50, 50, 20, 220)"
    by code_simp
  from ob(4) db(4) tb(4) calc e1 e2 e3 show ?thesis unfolding S_def by blast
qed

theorem guesser_points_near_formula_witness:
  "(\<exists>ob db tb.
      (ob = spec_bonus 50 0 2 \<or> ob = spec_bonus 50 0 2 - 1)
    \<and> (db = spec_bonus 100 1 2 \<or> db = spec_bonus 100 1 2 - 1)
    \<and> (tb = spec_bonus 25 48 60 \<or> tb = spec_bonus 25 48 60 - 1)
    \<and> CalculateGuesserPoints DefaultPoints 1 1 48 60 2 ''easy''
        = Inr \<lfloor>spec_multiplier ''easy'' * of_int (100 + ob + db + tb)\<rfloor>)
   \<and> CalculateGuesserPoints DefaultPoints 1 1 48 60 2 ''easy'' = Inr 204"
proof -
  have c: "BaseGuessPoints DefaultPoints = 100" "MaxOrderBonus DefaultPoints = 50"
    "MaxDifficultyBonus DefaultPoints = 100" "MaxTimeBonus DefaultPoints = 25"
    by (simp_all add: DefaultPoints_def)
  have v: "CalculateGuesserPoints DefaultPoints 1 1 48 60 2 ''easy'' = Inr 204" by code_simp
  from guesser_points_near_formula[of DefaultPoints 1 2 1 48 60 "''easy''"] v
  show ?thesis by (simp add: c)
qed

text \<open>
  The exact formula itself fails: with the default configuration, 2 players and easy
  difficulty, a first correct guess 48 seconds into a 60-second round gets 204 points,
  because \<open>25 \<times> (1 - 48 / 60)\<close> is \<open>4.999\<dots>\<close> in double precision, where the formula
  gives time bonus 5 and 205 points.
\<close>

theorem float_bonus_below_floor:
  "CalculateGuesserPoints DefaultPoints 1 1 48 60 2 ''easy'' = Inr 204
   \<and> spec_guesser_points DefaultPoints 1 1 48 60 2 ''easy'' = 205"
  by code_simp

subsection \<open>Leaderboard and winner\<close>

lemma mset_insertLeft: "mset (insertLeft lt x ys) = add_mset x (mset ys)"
  by (induction ys) auto

lemma mset_foldl_insertLeft:
  "mset (foldl (\<lambda>sorted x. insertLeft lt x sorted) acc xs) = mset acc + mset xs"
  by (induction xs arbitrary: acc) (auto simp: mset_insertLeft)

lemma mset_sortSlice: "mset (sortSlice lt xs) = mset xs"
  by (simp add: sortSlice_def mset_foldl_insertLeft)

lemma set_insertLeft: "set (insertLeft lt x ys) = insert x (set ys)"
  by (induction ys) auto

lemma ascending_insertLeft:
  "sorted_wrt (\<lambda>a b. key a \<le> key b) ys \<Longrightarrow>
   sorted_wrt (\<lambda>a b. (key a :: int) \<le> key b) (insertLeft (\<lambda>a b. key b < key a) x ys)"
  by (induction ys) (auto simp: set_insertLeft)

lemma ascending_foldl_insertLeft:
  "sorted_wrt (\<lambda>a b. key a \<le> key b) acc \<Longrightarrow>
   sorted_wrt (\<lambda>a b. (key a :: int) \<le> key b)
     (foldl (\<lambda>sorted x. insertLeft (\<lambda>a b. key b < key a) x sorted) acc xs)"
  by (induction xs arbitrary: acc) (auto simp: ascending_insertLeft)

lemma descending_sortSlice:
  "sorted_wrt (\<lambda>a b. (key b :: int) \<le> key a) (sortSlice (\<lambda>a b. key b < key a) xs)"
  using ascending_foldl_insertLeft[of key "[]" xs]
  by (simp add: sortSlice_def sorted_wrt_rev)

lemma gameEndLoop_winner:
  assumes "gameEndLoop cr visit (t, h, w, ps) = (t', h', w', ps')"
  shows "h \<le> h' \<and> (\<forall>q \<in> set visit. u_Score q \<le> h')
         \<and> ((\<exists>p \<in> set visit. h < u_Score p)
               \<longrightarrow> (\<exists>p \<in> set visit. w' = Some (ToPublicUser p) \<and> u_Score p = h'))
         \<and> ((\<forall>p \<in> set visit. u_Score p \<le> h) \<longrightarrow> w' = w \<and> h' = h)"
  using assms
proof (induction visit arbitrary: t h w ps)
  case Nil
  then show ?case by simp
next
  case (Cons p rest)
  show ?case
  proof (cases "h < u_Score p")
    case True
    with Cons.prems obtain t1 ps1 where
      "gameEndLoop cr rest (t1, u_Score p, Some (ToPublicUser p), ps1) = (t', h', w', ps')"
      by (simp add: Let_def)
    from Cons.IH[OF this] True show ?thesis by (auto; force)
  next
    case False
    with Cons.prems obtain t1 ps1 where
      "gameEndLoop cr rest (t1, h, w, ps1) = (t', h', w', ps')"
      by (simp add: Let_def)
    from Cons.IH[OF this] False show ?thesis by (auto; force)
  qed
qed

text \<open>
  C9, as amended. Every leaderboard is the room's players sorted by score, highest
  first, whatever the order in which the player map is visited; and when some player has
  a positive score, the winner reported in \<^verbatim>\<open>game_ended\<close> is a player whose score no
  other player exceeds. Nothing orders players with equal scores by the time they joined.
\<close>

theorem leaderboard_sorted_by_score:
  "mset (getLeaderboard_visiting visit) = mset (map ToPublicUser visit)
   \<and> sorted_wrt (\<lambda>a b. pu_Score b \<le> pu_Score a) (getLeaderboard_visiting visit)
   \<and> getLeaderboard r = getLeaderboard_visiting (map snd (r_Players r))
   \<and> ge_Leaderboard (gameEndData_visiting r visit) = getLeaderboard_visiting visit
   \<and> ((\<exists>p \<in> set visit. 0 < u_Score p) \<longrightarrow>
        (\<exists>p \<in> set visit. ge_Winner (gameEndData_visiting r visit) = Some (ToPublicUser p)
                            \<and> (\<forall>q \<in> set visit. u_Score q \<le> u_Score p)))"
proof -
  obtain t' h' w' ps' where g: "gameEndLoop (r_CurrentRound r) visit (0, 0, None, []) = (t', h', w', ps')"
    by (cases "gameEndLoop (r_CurrentRound r) visit (0, 0, None, [])") auto
  then have w: "ge_Winner (gameEndData_visiting r visit) = w'"
    and l: "ge_Leaderboard (gameEndData_visiting r visit) = getLeaderboard_visiting visit"
    by (simp_all add: gameEndData_visiting_def)
  from gameEndLoop_winner[OF g] have
    "(\<exists>p \<in> set visit. 0 < u_Score p) \<longrightarrow>
        (\<exists>p \<in> set visit. w' = Some (ToPublicUser p) \<and> (\<forall>q \<in> set visit. u_Score q \<le> u_Score p))"
    by auto
  with w l show ?thesis
    by (simp add: getLeaderboard_visiting_def getLeaderboard_def mset_sortSlice descending_sortSlice)
qed

theorem leaderboard_sorted_by_score_witness:
  "(\<exists>p \<in> set [lateUser, earlyUser]. 0 < u_Score p)
   \<and> (\<exists>p \<in> set [lateUser, earlyUser].
         ge_Winner (gameEndData_visiting midRound [lateUser, earlyUser]) = Some (ToPublicUser p)
         \<and> (\<forall>q \<in> set [lateUser, earlyUser]. u_Score q \<le> u_Score p))
   \<and> sorted_wrt (\<lambda>a b. pu_Score b \<le> pu_Score a) (getLeaderboard_visiting [lateUser, earlyUser])"
proof -
  have s: "u_Score lateUser = 100" "u_Score earlyUser = 100"
    by (simp_all add: lateUser_def earlyUser_def NewUser_def)
  from leaderboard_sorted_by_score[of "[lateUser, earlyUser]" midRound] s
  show ?thesis by simp
qed

text \<open>
  Ties are not broken by \<open>joined_at\<close>: \<open>E\<close> joined before \<open>L\<close> and both have 100
  points; when the map is visited \<open>L\<close> first, the leaderboard lists \<open>L\<close> before \<open>E\<close>
  and the winner is \<open>L\<close>. And when no player has a positive score, no winner is reported.
\<close>

theorem ties_follow_visiting_order:
  "u_Score earlyUser = u_Score lateUser
   \<and> u_JoinedAt earlyUser < u_JoinedAt lateUser
   \<and> map pu_ID (getLeaderboard_visiting [lateUser, earlyUser]) = [''L'', ''E'']
   \<and> map_option pu_ID (ge_Winner (gameEndData_visiting midRound [lateUser, earlyUser])) = Some ''L''
   \<and> ge_Winner (gameEndData_visiting midRound [alice, bob, carol]) = None"
  by code_simp

end
